theory Spec2Isabelle
  imports Main
begin

section \<open>Plain objects used as tables\<close>

text \<open>
  The program keeps its tables in objects created by \<^verbatim>\<open>{}\<close>. Such an object has own
  keys, which \<^verbatim>\<open>hasOwnProperty\<close> and \<^verbatim>\<open>Object.keys\<close> see, and it inherits the
  properties of \<^verbatim>\<open>Object.prototype\<close>. The model keeps the own keys with their values
  as an association list in insertion order (the order \<^verbatim>\<open>Object.keys\<close> gives for keys
  that are not array indices); assigning to a key that exists keeps its position.

  Assigning under the key \<^verbatim>\<open>__proto__\<close> calls the setter inherited from
  \<^verbatim>\<open>Object.prototype\<close> and creates no own key; with a value that is not an object
  (a string, a boolean) it does nothing at all.
\<close>

definition proto_key :: string where
  "proto_key = ''__proto__''"

fun alist_set :: "'k \<Rightarrow> 'v \<Rightarrow> ('k \<times> 'v) list \<Rightarrow> ('k \<times> 'v) list" where
  "alist_set k v [] = [(k, v)]"
| "alist_set k v ((k', v') # kvs) =
     (if k' = k then (k, v) # kvs else (k', v') # alist_set k v kvs)"

text \<open>\<^verbatim>\<open>obj[ k ] = v\<close> for a value that is not an object.\<close>

definition obj_set :: "string \<Rightarrow> 'v \<Rightarrow> (string \<times> 'v) list \<Rightarrow> (string \<times> 'v) list" where
  "obj_set k v obj = (if k = proto_key then obj else alist_set k v obj)"

text \<open>\<^verbatim>\<open>hasOwnProp.call( obj, k ) && obj[ k ]\<close>: the value of an own key.\<close>

definition obj_get :: "(string \<times> 'v) list \<Rightarrow> string \<Rightarrow> 'v option" where
  "obj_get obj k = map_of obj k"

text \<open>
  A table whose values are all \<^verbatim>\<open>true\<close> is the list of its own keys:
  \<^verbatim>\<open>keys[ k ] = true\<close>.
\<close>

definition add_key :: "string \<Rightarrow> string list \<Rightarrow> string list" where
  "add_key k ks = (if k = proto_key \<or> k \<in> set ks then ks else ks @ [k])"

text \<open>
  The names every plain object inherits from \<^verbatim>\<open>Object.prototype\<close>. Reading
  \<^verbatim>\<open>obj[ k ]\<close> without asking \<^verbatim>\<open>hasOwnProperty\<close> first yields, for one of these
  names that is not an own key, a function (for \<^verbatim>\<open>__proto__\<close> the prototype itself):
  a value that is truthy.
\<close>

definition inherited_keys :: "string list" where
  "inherited_keys =
     [''constructor'', ''toString'', ''toLocaleString'', ''valueOf'', ''hasOwnProperty'',
      ''isPrototypeOf'', ''propertyIsEnumerable'', ''__defineGetter__'', ''__defineSetter__'',
      ''__lookupGetter__'', ''__lookupSetter__'', ''__proto__'']"


section \<open>Path resolution (\<^verbatim>\<open>resolveId\<close>, \<^verbatim>\<open>resolve\<close>)\<close>

text \<open>
  JavaScript strings are modelled as \<^typ>\<open>string\<close>, arrays as lists.
  \<^verbatim>\<open>String.prototype.split\<close> with a separator that never matches the empty
  string always returns at least one piece; \<^verbatim>\<open>Array.prototype.pop\<close> and
  \<^verbatim>\<open>shift\<close> leave an empty array empty; reading index 0 of an empty array
  or string gives \<^verbatim>\<open>undefined\<close>, which is different from every string.
\<close>

fun split_on :: "(char \<Rightarrow> bool) \<Rightarrow> string \<Rightarrow> string list" where
  "split_on sep [] = [[]]"
| "split_on sep (c # cs) =
     (if sep c then [] # split_on sep cs
      else (case split_on sep cs of
              [] \<Rightarrow> [[c]]
            | w # ws \<Rightarrow> (c # w) # ws))"

definition backslash :: char where
  "backslash = CHR 0x5C"

text \<open>\<^verbatim>\<open>var pathSplitRE = /\/|\\/; function splitPath ( path ) { return path.split( pathSplitRE ); }\<close>\<close>

definition pathSplitRE :: "char \<Rightarrow> bool" where
  "pathSplitRE c = (c = CHR ''/'' \<or> c = backslash)"

definition splitPath :: "string \<Rightarrow> string list" where
  "splitPath path = split_on pathSplitRE path"

text \<open>\<^verbatim>\<open>parts.join( '/' )\<close>\<close>

fun join_slash :: "string list \<Rightarrow> string" where
  "join_slash [] = []"
| "join_slash [p] = p"
| "join_slash (p # q # ps) = p @ ''/'' @ join_slash (q # ps)"

text \<open>\<^verbatim>\<open>resolved.replace( /\.js$/, '' )\<close>: the pattern is anchored at the end of the input.\<close>

definition strip_js :: "string \<Rightarrow> string" where
  "strip_js s =
     (if 3 \<le> length s \<and> drop (length s - 3) s = ''.js'' then take (length s - 3) s else s)"

text \<open>\<^verbatim>\<open>importPath[0] !== '.'\<close>\<close>

definition first_is_dot :: "string \<Rightarrow> bool" where
  "first_is_dot s = (case s of [] \<Rightarrow> False | c # _ \<Rightarrow> c = CHR ''.'')"

text \<open>\<^verbatim>\<open>importParts[0] === seg\<close>\<close>

definition first_part_is :: "string \<Rightarrow> string list \<Rightarrow> bool" where
  "first_part_is seg parts = (case parts of [] \<Rightarrow> False | p # _ \<Rightarrow> p = seg)"

text \<open>
  \<^verbatim>\<open>while ( importParts[0] === '..' ) { importParts.shift(); importerParts.pop(); }\<close>
  returning both arrays.
\<close>

fun shift_dotdots :: "string list \<Rightarrow> string list \<Rightarrow> string list \<times> string list" where
  "shift_dotdots [] importerParts = ([], importerParts)"
| "shift_dotdots (p # ps) importerParts =
     (if p = ''..'' then shift_dotdots ps (butlast importerParts)
      else (p # ps, importerParts))"

text \<open>\<^verbatim>\<open>while ( importParts[0] === '.' ) { importParts.shift(); }\<close>\<close>

fun shift_dots :: "string list \<Rightarrow> string list" where
  "shift_dots [] = []"
| "shift_dots (p # ps) = (if p = ''.'' then shift_dots ps else p # ps)"

text \<open>\<^verbatim>\<open>resolveId\<close> of \<^verbatim>\<open>dist/esperanto.js\<close>, the resolver the bundle loader calls.\<close>

definition resolveId :: "string \<Rightarrow> string \<Rightarrow> string" where
  "resolveId importPath importerPath =
     (if \<not> first_is_dot importPath then strip_js importPath
      else
        let importerParts = splitPath importerPath;
            importParts = splitPath importPath;
            importParts = (if first_part_is ''.'' importParts then tl importParts else importParts);
            importerParts = butlast importerParts;
            (importParts, importerParts) = shift_dotdots importParts importerParts;
            importParts = shift_dots importParts
        in strip_js (join_slash (importerParts @ importParts)))"


section \<open>Errors\<close>

text \<open>
  Every \<^verbatim>\<open>throw\<close> of the program is a value: \<^verbatim>\<open>new Error(msg)\<close>,
  \<^verbatim>\<open>new SyntaxError(msg)\<close>, \<^verbatim>\<open>new EsperantoError(msg, { code: c })\<close>, a
  \<^verbatim>\<open>TypeError\<close> of the runtime, a rejection of the file system collaborator
  carrying its \<^verbatim>\<open>code\<close> (\<^verbatim>\<open>ENOENT\<close>, \<^verbatim>\<open>EACCES\<close>, ...), and an error thrown by the
  text buffer library with its message.
\<close>

datatype error =
    Error string
  | SyntaxError string
  | EsperantoError string string
  | TypeError string
  | SystemError string
  | BufferError string

definition error_code :: "error \<Rightarrow> string option" where
  "error_code e = (case e of EsperantoError _ c \<Rightarrow> Some c | SystemError c \<Rightarrow> Some c | _ \<Rightarrow> None)"

text \<open>A step that may throw, followed by what comes after it.\<close>

definition and_then :: "error + 'a \<Rightarrow> ('a \<Rightarrow> error + 'b) \<Rightarrow> error + 'b" where
  "and_then r f = (case r of Inl err \<Rightarrow> Inl err | Inr v \<Rightarrow> f v)"

text \<open>A loop \<^verbatim>\<open>xs.forEach\<close> whose body may throw.\<close>

fun each :: "('x \<Rightarrow> 'a \<Rightarrow> error + 'a) \<Rightarrow> 'x list \<Rightarrow> 'a \<Rightarrow> error + 'a" where
  "each f [] a = Inr a"
| "each f (x # xs) a = and_then (f x a) (each f xs)"

section \<open>The mutable text buffer\<close>

text \<open>
  The buffer is the \<^verbatim>\<open>magic-string\<close> library, a collaborator that is not part of
  the repository. A buffer keeps the original text and the calls
  \<^verbatim>\<open>replace(a, b, s)\<close>, \<^verbatim>\<open>remove(a, b)\<close> and \<^verbatim>\<open>insert(a, s)\<close> issued against
  it, in the order issued and in original offsets, and an intro and an outro that
  \<^verbatim>\<open>prepend\<close> and \<^verbatim>\<open>append\<close> extend. When the library throws on such a call is
  its own affair: the model takes that decision as a parameter the buffer carries
  (\<open>ms_refuses\<close>, applied to the original text, the calls so far and the new call,
  giving the message of the error if the call is refused), and a refused call is the
  error \<open>BufferError\<close>.
\<close>

datatype edit = Replace nat nat string | Remove nat nat | Insert nat string

record MagicString =
  ms_original :: string
  ms_edits :: "edit list"
  ms_intro :: string
  ms_outro :: string
  ms_indentStr :: string
  ms_refuses :: "string \<Rightarrow> edit list \<Rightarrow> edit \<Rightarrow> string option"

definition MagicString_new ::
  "(string \<Rightarrow> edit list \<Rightarrow> edit \<Rightarrow> string option) \<Rightarrow> string \<Rightarrow> MagicString" where
  "MagicString_new refuses source =
     \<lparr>ms_original = source, ms_edits = [], ms_intro = [], ms_outro = [], ms_indentStr = [CHR 0x09],
      ms_refuses = refuses\<rparr>"

definition ms_call :: "edit \<Rightarrow> MagicString \<Rightarrow> error + MagicString" where
  "ms_call e m =
     (case ms_refuses m (ms_original m) (ms_edits m) e of
        Some msg \<Rightarrow> Inl (BufferError msg)
      | None \<Rightarrow> Inr (m\<lparr>ms_edits := ms_edits m @ [e]\<rparr>))"

definition ms_replace :: "nat \<Rightarrow> nat \<Rightarrow> string \<Rightarrow> MagicString \<Rightarrow> error + MagicString" where
  "ms_replace a b s m = ms_call (Replace a b s) m"

definition ms_remove :: "nat \<Rightarrow> nat \<Rightarrow> MagicString \<Rightarrow> error + MagicString" where
  "ms_remove a b m = ms_call (Remove a b) m"

definition ms_insert :: "nat \<Rightarrow> string \<Rightarrow> MagicString \<Rightarrow> error + MagicString" where
  "ms_insert a s m = ms_call (Insert a s) m"

definition ms_prepend :: "string \<Rightarrow> MagicString \<Rightarrow> MagicString" where
  "ms_prepend s m = m\<lparr>ms_intro := s @ ms_intro m\<rparr>"

definition ms_append :: "string \<Rightarrow> MagicString \<Rightarrow> MagicString" where
  "ms_append s m = m\<lparr>ms_outro := ms_outro m @ s\<rparr>"

text \<open>A library that refuses nothing.\<close>

definition accepts_all :: "string \<Rightarrow> edit list \<Rightarrow> edit \<Rightarrow> string option" where
  "accepts_all source edits e = None"

text \<open>
  Modelled from the spec: the text of a buffer. The spec describes the buffer as a
  mutable text-edit buffer over the source supporting \<^verbatim>\<open>remove(a,b)\<close>,
  \<^verbatim>\<open>replace(a,b,s)\<close>, \<^verbatim>\<open>insert(p,s)\<close>, \<^verbatim>\<open>prepend\<close>, \<^verbatim>\<open>append\<close>,
  \<^verbatim>\<open>trim\<close>, \<^verbatim>\<open>indent\<close> and \<^verbatim>\<open>toString\<close>, all edits expressed in original
  offsets; the library that implements it is missing from the repository. In the text,
  \<^verbatim>\<open>insert(a, s)\<close> and \<^verbatim>\<open>replace(a, a, s)\<close> put \<open>s\<close> in front of the character
  at offset \<open>a\<close>, in the order issued; \<^verbatim>\<open>remove(a, b)\<close> is
  \<^verbatim>\<open>replace(a, b, '')\<close>.
\<close>

text \<open>The texts inserted in front of offset \<open>p\<close>, in the order issued.\<close>

fun inserted_at :: "edit list \<Rightarrow> nat \<Rightarrow> string" where
  "inserted_at [] p = []"
| "inserted_at (Replace a b s # es) p =
     (if a = p \<and> b \<le> a then s @ inserted_at es p else inserted_at es p)"
| "inserted_at (Insert a s # es) p = (if a = p then s @ inserted_at es p else inserted_at es p)"
| "inserted_at (Remove a b # es) p = inserted_at es p"

text \<open>The first call issued that replaces a non-empty range starting at \<open>p\<close>.\<close>

fun replaced_at :: "edit list \<Rightarrow> nat \<Rightarrow> (nat \<times> string) option" where
  "replaced_at [] p = None"
| "replaced_at (Replace a b s # es) p =
     (if a = p \<and> a < b then Some (b, s) else replaced_at es p)"
| "replaced_at (Remove a b # es) p =
     (if a = p \<and> a < b then Some (b, []) else replaced_at es p)"
| "replaced_at (Insert a s # es) p = replaced_at es p"

function render :: "edit list \<Rightarrow> nat \<Rightarrow> string \<Rightarrow> string" where
  "render es p [] = inserted_at es p"
| "render es p (c # cs) =
     inserted_at es p @
       (case replaced_at es p of
          Some (b, s) \<Rightarrow> s @ render es b (drop (b - Suc p) cs)
        | None \<Rightarrow> c # render es (Suc p) cs)"
  by pat_completeness auto
termination
  by (relation "measure (\<lambda>(es, p, cs). length cs)") auto

definition ms_toString :: "MagicString \<Rightarrow> string" where
  "ms_toString m = ms_intro m @ render (ms_edits m) 0 (ms_original m) @ ms_outro m"

text \<open>
  Modelled from the spec: \<^verbatim>\<open>trim\<close>, \<^verbatim>\<open>trimLines\<close> and \<^verbatim>\<open>indent\<close> of the
  missing library act on the text as it stands. No call in original offsets follows
  them in this program, so the model re-bases the buffer on the text they produce.
\<close>

definition is_space :: "char \<Rightarrow> bool" where
  "is_space c = (c = CHR '' '' \<or> c = CHR 0x09 \<or> c = CHR 0x0A \<or> c = CHR 0x0B \<or> c = CHR 0x0C \<or> c = CHR 0x0D)"

definition is_newline :: "char \<Rightarrow> bool" where
  "is_newline c = (c = CHR 0x0A \<or> c = CHR 0x0D)"

definition strip :: "(char \<Rightarrow> bool) \<Rightarrow> string \<Rightarrow> string" where
  "strip P s = rev (dropWhile P (rev (dropWhile P s)))"

definition rebase :: "string \<Rightarrow> MagicString \<Rightarrow> MagicString" where
  "rebase s m = m\<lparr>ms_original := s, ms_edits := [], ms_intro := [], ms_outro := []\<rparr>"

definition ms_trim :: "MagicString \<Rightarrow> MagicString" where
  "ms_trim m = rebase (strip is_space (ms_toString m)) m"

definition ms_trimLines :: "MagicString \<Rightarrow> MagicString" where
  "ms_trimLines m = rebase (strip is_newline (ms_toString m)) m"

text \<open>\<^verbatim>\<open>indent\<close> puts the indent string in front of every line that is not empty.\<close>

fun indent_text :: "string \<Rightarrow> bool \<Rightarrow> string \<Rightarrow> string" where
  "indent_text ind atStart [] = []"
| "indent_text ind atStart (c # cs) =
     (if is_newline c then c # indent_text ind True cs
      else (if atStart then ind else []) @ c # indent_text ind False cs)"

definition ms_indent :: "MagicString \<Rightarrow> MagicString" where
  "ms_indent m = rebase (indent_text (ms_indentStr m) True (ms_toString m)) m"

definition getIndentString :: "MagicString \<Rightarrow> string" where
  "getIndentString m = ms_indentStr m"

section \<open>Syntax trees\<close>

text \<open>
  The parser is a collaborator; its trees are inputs. A node has its offsets, the
  \<^verbatim>\<open>_skip\<close> mark and a shape. The shapes the program inspects have their fields; any
  other node type is \<open>Other\<close> with its type name and its children in traversal order
  (the program itself is \<open>Other ''Program''\<close>); which children the traversal library
  visits, and in which order, is part of the input. The fields \<^verbatim>\<open>_scope\<close> of a function,
  \<^verbatim>\<open>_blockScope\<close> of a block and \<^verbatim>\<open>_topLevel\<close> of a \<^verbatim>\<open>this\<close> hold what
  \<^verbatim>\<open>annotateAst\<close> attaches; a parsed tree has them empty.
\<close>

datatype ftype = FunctionExpression | FunctionDeclaration | ArrowFunctionExpression

datatype ctype = ClassExpression | ClassDeclaration

datatype node = Node (nstart: nat) (nend: nat) (skip: bool) (shape: shape)
and shape =
    Identifier string
  | ThisExpression bool
  | AssignmentExpression string node node
  | UpdateExpression string node
  | MemberExpression bool node node
  | Property node node
  | VariableDeclaration string "node list"
  | VariableDeclarator node "node option"
  | Function ftype "string option list" "node option" "node list" node
  | Class ctype "node option" "node list"
  | BlockStatement "string option list" "node list"
  | ImportDeclaration "node list"
  | ExportSpecifier "node list"
  | Other string "node list"

fun ntype :: "shape \<Rightarrow> string" where
  "ntype (Identifier _) = ''Identifier''"
| "ntype (ThisExpression _) = ''ThisExpression''"
| "ntype (AssignmentExpression _ _ _) = ''AssignmentExpression''"
| "ntype (UpdateExpression _ _) = ''UpdateExpression''"
| "ntype (MemberExpression _ _ _) = ''MemberExpression''"
| "ntype (Property _ _) = ''Property''"
| "ntype (VariableDeclaration _ _) = ''VariableDeclaration''"
| "ntype (VariableDeclarator _ _) = ''VariableDeclarator''"
| "ntype (Function FunctionExpression _ _ _ _) = ''FunctionExpression''"
| "ntype (Function FunctionDeclaration _ _ _ _) = ''FunctionDeclaration''"
| "ntype (Function ArrowFunctionExpression _ _ _ _) = ''ArrowFunctionExpression''"
| "ntype (Class ClassExpression _ _) = ''ClassExpression''"
| "ntype (Class ClassDeclaration _ _) = ''ClassDeclaration''"
| "ntype (BlockStatement _ _) = ''BlockStatement''"
| "ntype (ImportDeclaration _) = ''ImportDeclaration''"
| "ntype (ExportSpecifier _) = ''ExportSpecifier''"
| "ntype (Other t _) = t"

text \<open>The children of a node, in the order the traversal library visits them.\<close>

fun opt_list :: "'a option \<Rightarrow> 'a list" where
  "opt_list None = []"
| "opt_list (Some x) = [x]"

fun children :: "shape \<Rightarrow> node list" where
  "children (Identifier _) = []"
| "children (ThisExpression _) = []"
| "children (AssignmentExpression _ l r) = [l, r]"
| "children (UpdateExpression _ a) = [a]"
| "children (MemberExpression _ ob pr) = [ob, pr]"
| "children (Property k v) = [k, v]"
| "children (VariableDeclaration _ ds) = ds"
| "children (VariableDeclarator i init) = i # opt_list init"
| "children (Function _ _ i ps b) = opt_list i @ ps @ [b]"
| "children (Class _ i rest) = opt_list i @ rest"
| "children (BlockStatement _ b) = b"
| "children (ImportDeclaration cs) = cs"
| "children (ExportSpecifier cs) = cs"
| "children (Other _ cs) = cs"

lemma size_children: "sum_list (map size (children sh)) \<le> size sh"
proof (cases sh)
  case (VariableDeclaration k ds)
  have "sum_list (map size ds) \<le> size_list size ds" by (induction ds) auto
  with VariableDeclaration show ?thesis by simp
next
  case (Function ft ns i ps b)
  have "sum_list (map size ps) \<le> size_list size ps" by (induction ps) auto
  with Function show ?thesis by (cases i) auto
next
  case (Class ct i rest)
  have "sum_list (map size rest) \<le> size_list size rest" by (induction rest) auto
  with Class show ?thesis by (cases i) auto
next
  case (BlockStatement ns b)
  have "sum_list (map size b) \<le> size_list size b" by (induction b) auto
  with BlockStatement show ?thesis by simp
next
  case (ImportDeclaration cs)
  have "sum_list (map size cs) \<le> size_list size cs" by (induction cs) auto
  with ImportDeclaration show ?thesis by simp
next
  case (ExportSpecifier cs)
  have "sum_list (map size cs) \<le> size_list size cs" by (induction cs) auto
  with ExportSpecifier show ?thesis by simp
next
  case (Other t cs)
  have "sum_list (map size cs) \<le> size_list size cs" by (induction cs) auto
  with Other show ?thesis by simp
next
  case (VariableDeclarator i init)
  then show ?thesis by (cases init) auto
qed auto

text \<open>\<^verbatim>\<open>x.name\<close> of a node: defined for an identifier only.\<close>

fun name_of :: "node \<Rightarrow> string option" where
  "name_of (Node _ _ _ (Identifier n)) = Some n"
| "name_of _ = None"

section \<open>Scopes\<close>

text \<open>
  The names of a scope are what \<^verbatim>\<open>declarator.id.name\<close> and \<^verbatim>\<open>param.name\<close> gave
  when they were added: a string, or \<^verbatim>\<open>undefined\<close> (\<open>None\<close>) where the declared thing
  is a pattern and not an identifier.
\<close>

datatype scope = Scope (scope_names: "string option list") (scope_parent: "scope option")

text \<open>
  \<^verbatim>\<open>
  contains: function ( name, ignoreTopLevel ) {
    if ( ignoreTopLevel && !this.parent ) return false;
    if ( ~this.names.indexOf( name ) ) return true;
    if ( this.parent ) return this.parent.contains( name, ignoreTopLevel );
    return false;
  }\<close>
\<close>

fun contains :: "scope \<Rightarrow> string \<Rightarrow> bool \<Rightarrow> bool" where
  "contains (Scope ns None) name ignoreTopLevel =
     (if ignoreTopLevel then False else Some name \<in> set ns)"
| "contains (Scope ns (Some p)) name ignoreTopLevel =
     (if Some name \<in> set ns then True else contains p name ignoreTopLevel)"

section \<open>The scope annotator (\<^verbatim>\<open>annotateAst\<close>)\<close>

text \<open>
  The annotator walks the tree once. Its variables \<^verbatim>\<open>scope\<close> and \<^verbatim>\<open>blockScope\<close>
  point to the scope objects being filled; a scope object's \<^verbatim>\<open>names\<close> are complete
  when the walk leaves the node that owns it, and that list is what the model stores
  in the node. The state holds the names of the current function scope and block scope
  and the two tables \<^verbatim>\<open>declared\<close> and \<^verbatim>\<open>topLevelFunctionNames\<close>. A name read
  from a node that is not an identifier (a destructuring pattern) is \<^verbatim>\<open>undefined\<close>:
  it is pushed as such on the names of the scope, and as a key of \<^verbatim>\<open>declared\<close> it is
  the string \<^verbatim>\<open>undefined\<close>.
\<close>

record astate =
  a_scope :: "string option list"
  a_blockScope :: "string option list"
  a_declared :: "string list"
  a_topLevelFunctionNames :: "string list"

text \<open>A missing value printed into a string or used as a key is \<^verbatim>\<open>undefined\<close>.\<close>

definition js_str :: "string option \<Rightarrow> string" where
  "js_str v = (case v of None \<Rightarrow> ''undefined'' | Some s \<Rightarrow> s)"

text \<open>JavaScript treats a missing string and an empty one alike as falsy.\<close>

definition truthy :: "string option \<Rightarrow> bool" where
  "truthy v = (case v of None \<Rightarrow> False | Some s \<Rightarrow> s \<noteq> [])"

text \<open>\<^verbatim>\<open>function addToScope ( declarator ) { var name = declarator.id.name; scope.add( name ); declared[ name ] = true; }\<close>\<close>

definition addToScope :: "string option \<Rightarrow> astate \<Rightarrow> astate" where
  "addToScope name st =
     st\<lparr>a_scope := a_scope st @ [name], a_declared := add_key (js_str name) (a_declared st)\<rparr>"

definition addToBlockScope :: "string option \<Rightarrow> astate \<Rightarrow> astate" where
  "addToBlockScope name st =
     st\<lparr>a_blockScope := a_blockScope st @ [name], a_declared := add_key (js_str name) (a_declared st)\<rparr>"

text \<open>
  \<^verbatim>\<open>declarator.id\<close> of a member of \<^verbatim>\<open>node.declarations\<close>. The parser puts
  variable declarators there and nothing else; for any other node the read of
  \<^verbatim>\<open>.id.name\<close> is a \<^verbatim>\<open>TypeError\<close>.
\<close>

fun declarator_id :: "node \<Rightarrow> node option" where
  "declarator_id (Node _ _ _ (VariableDeclarator i _)) = Some i"
| "declarator_id _ = None"

fun add_declarators :: "bool \<Rightarrow> node list \<Rightarrow> astate \<Rightarrow> error + astate" where
  "add_declarators isLet [] st = Inr st"
| "add_declarators isLet (d # ds) st =
     (case declarator_id d of
        None \<Rightarrow> Inl (TypeError ''Cannot read property 'name' of undefined'')
      | Some i \<Rightarrow>
          add_declarators isLet ds
            (if isLet then addToBlockScope (name_of i) st else addToScope (name_of i) st))"

fun set_skip :: "node \<Rightarrow> node" where
  "set_skip (Node s e _ sh) = Node s e True sh"

text \<open>The marks \<^verbatim>\<open>enter\<close> puts on the children of a member expression and of a property.\<close>

fun mark_children :: "shape \<Rightarrow> shape" where
  "mark_children (MemberExpression computed ob pr) =
     MemberExpression computed ob (if computed then pr else set_skip pr)"
| "mark_children (Property k v) = Property (set_skip k) v"
| "mark_children sh = sh"

text \<open>A shape with its children replaced, in traversal order.\<close>

fun with_children :: "shape \<Rightarrow> node list \<Rightarrow> shape" where
  "with_children (AssignmentExpression op _ _) [l, r] = AssignmentExpression op l r"
| "with_children (UpdateExpression op _) [a] = UpdateExpression op a"
| "with_children (MemberExpression c _ _) [ob, pr] = MemberExpression c ob pr"
| "with_children (Property _ _) [k, v] = Property k v"
| "with_children (VariableDeclaration kind _) ds = VariableDeclaration kind ds"
| "with_children (VariableDeclarator _ None) [i] = VariableDeclarator i None"
| "with_children (VariableDeclarator _ (Some _)) [i, init] = VariableDeclarator i (Some init)"
| "with_children (Function ft ns None _ _) (k # ks) =
     Function ft ns None (butlast (k # ks)) (last (k # ks))"
| "with_children (Function ft ns (Some _) _ _) (i # k # ks) =
     Function ft ns (Some i) (butlast (k # ks)) (last (k # ks))"
| "with_children (Class ct None _) ks = Class ct None ks"
| "with_children (Class ct (Some _) _) (i # ks) = Class ct (Some i) ks"
| "with_children (BlockStatement ns _) ks = BlockStatement ns ks"
| "with_children (ImportDeclaration _) ks = ImportDeclaration ks"
| "with_children (ExportSpecifier _) ks = ExportSpecifier ks"
| "with_children (Other t _) ks = Other t ks"
| "with_children sh _ = sh"

fun is_this :: "node \<Rightarrow> bool" where
  "is_this (Node _ _ _ (ThisExpression _)) = True"
| "is_this _ = False"

text \<open>
  The part of \<^verbatim>\<open>enter\<close> that runs before the children are visited: the new state
  (for a function, the state inside it, its scope seeded with the parameter names), or
  the error thrown.
\<close>

definition annotate_enter :: "nat \<Rightarrow> bool \<Rightarrow> shape \<Rightarrow> astate \<Rightarrow> error + astate" where
  "annotate_enter envDepth isRoot sh st =
     (case sh of
        Function ft _ i ps _ \<Rightarrow>
          let st1 = (case i of
                       None \<Rightarrow> st
                     | Some idn \<Rightarrow>
                         let st' = addToScope (name_of idn) st
                         in if isRoot \<and> ft = FunctionDeclaration
                            then st'\<lparr>a_topLevelFunctionNames :=
                                      a_topLevelFunctionNames st' @ opt_list (name_of idn)\<rparr>
                            else st')
          in Inr (st1\<lparr>a_scope := map name_of ps\<rparr>)
      | BlockStatement _ _ \<Rightarrow> Inr (st\<lparr>a_blockScope := []\<rparr>)
      | VariableDeclaration kind ds \<Rightarrow> add_declarators (kind = ''let'') ds st
      | Class _ i _ \<Rightarrow>
          (case i of
             None \<Rightarrow> Inl (TypeError ''Cannot read property 'name' of null'')
           | Some idn \<Rightarrow> Inr (addToScope (name_of idn) st))
      | MemberExpression _ ob _ \<Rightarrow>
          if envDepth = 0 \<and> is_this ob
          then Inl (Error ''`this` at the top level is undefined'')
          else Inr st
      | _ \<Rightarrow> Inr st)"

text \<open>
  The state after \<^verbatim>\<open>leave\<close>: leaving a function or a block goes back to the parent
  scope, whose names are those the state had when the node was entered (for a
  function, after its own name was added).
\<close>

definition annotate_leave :: "shape \<Rightarrow> astate \<Rightarrow> astate \<Rightarrow> astate" where
  "annotate_leave sh st_before st_after =
     (case sh of
        Function _ _ i _ _ \<Rightarrow>
          st_after\<lparr>a_scope :=
            (case i of
               None \<Rightarrow> a_scope st_before
             | Some idn \<Rightarrow> a_scope st_before @ [name_of idn])\<rparr>
      | BlockStatement _ _ \<Rightarrow> st_after\<lparr>a_blockScope := a_blockScope st_before\<rparr>
      | _ \<Rightarrow> st_after)"

text \<open>The annotations the node itself receives.\<close>

definition annotate_shape :: "nat \<Rightarrow> shape \<Rightarrow> astate \<Rightarrow> shape" where
  "annotate_shape envDepth sh st_after =
     (case sh of
        Function ft _ i ps b \<Rightarrow> Function ft (a_scope st_after) i ps b
      | BlockStatement _ b \<Rightarrow> BlockStatement (a_blockScope st_after) b
      | ThisExpression _ \<Rightarrow> ThisExpression (envDepth = 0)
      | _ \<Rightarrow> sh)"

definition depth_in :: "nat \<Rightarrow> shape \<Rightarrow> nat" where
  "depth_in envDepth sh =
     (case sh of
        Function FunctionExpression _ _ _ _ \<Rightarrow> Suc envDepth
      | Function FunctionDeclaration _ _ _ _ \<Rightarrow> Suc envDepth
      | _ \<Rightarrow> envDepth)"

definition root_in :: "bool \<Rightarrow> shape \<Rightarrow> bool" where
  "root_in isRoot sh = (case sh of Function _ _ _ _ _ \<Rightarrow> False | _ \<Rightarrow> isRoot)"

lemma size_set_skip: "size (set_skip n) = size n"
  by (cases n) simp

lemma size_mark_children:
  "sum_list (map size (children (mark_children sh))) = sum_list (map size (children sh))"
  by (cases sh) (auto simp: size_set_skip)

function annotate_node :: "nat \<Rightarrow> bool \<Rightarrow> node \<Rightarrow> astate \<Rightarrow> error + (node \<times> astate)"
  and annotate_nodes :: "nat \<Rightarrow> bool \<Rightarrow> node list \<Rightarrow> astate \<Rightarrow> error + (node list \<times> astate)" where
  "annotate_node envDepth isRoot (Node s e sk sh) st =
     (if sk \<or> ntype sh = ''ImportDeclaration'' \<or> ntype sh = ''ExportSpecifier''
      then Inr (Node s e True sh, st)
      else
        (case annotate_enter envDepth isRoot sh st of
           Inl err \<Rightarrow> Inl err
         | Inr st1 \<Rightarrow>
             (case annotate_nodes (depth_in envDepth sh) (root_in isRoot sh)
                     (children (mark_children sh)) st1 of
                Inl err \<Rightarrow> Inl err
              | Inr (kids, st2) \<Rightarrow>
                  Inr (Node s e sk (annotate_shape envDepth (with_children sh kids) st2),
                       annotate_leave sh st st2))))"
| "annotate_nodes envDepth isRoot [] st = Inr ([], st)"
| "annotate_nodes envDepth isRoot (n # ns) st =
     (case annotate_node envDepth isRoot n st of
        Inl err \<Rightarrow> Inl err
      | Inr (n', st1) \<Rightarrow>
          (case annotate_nodes envDepth isRoot ns st1 of
             Inl err \<Rightarrow> Inl err
           | Inr (ns', st2) \<Rightarrow> Inr (n' # ns', st2)))"
  by pat_completeness auto
termination
proof (relation "measure (\<lambda>x. case x of
          Inl (d, r, n, st) \<Rightarrow> 2 * size n
        | Inr (d, r, ns, st) \<Rightarrow> 2 * sum_list (map size ns) + 1)", goal_cases)
  case 1
  then show ?case by simp
next
  case (2 envDepth isRoot s e sk sh st st1)
  show ?case using size_children [of sh] by (simp add: size_mark_children)
next
  case (3 envDepth isRoot n ns st)
  then show ?case by simp
next
  case (4 envDepth isRoot n ns st x y z)
  have "0 < size n" by (cases n) simp
  then show ?case by simp
qed

text \<open>The annotated tree with the tables \<^verbatim>\<open>annotateAst\<close> stores on the root.\<close>

record ast =
  ast_root :: node
  ast_scope :: "string option list"
  ast_blockScope :: "string option list"
  ast_topLevelNames :: "string option list"
  ast_topLevelFunctionNames :: "string list"
  ast_declared :: "string list"

definition annotateAst :: "node \<Rightarrow> error + ast" where
  "annotateAst root =
     (case annotate_node 0 True root
             \<lparr>a_scope = [], a_blockScope = [], a_declared = [], a_topLevelFunctionNames = []\<rparr> of
        Inl err \<Rightarrow> Inl err
      | Inr (root', st) \<Rightarrow>
          Inr \<lparr>ast_root = root',
               ast_scope = a_scope st,
               ast_blockScope = a_blockScope st,
               ast_topLevelNames = a_scope st @ a_blockScope st,
               ast_topLevelFunctionNames = a_topLevelFunctionNames st,
               ast_declared = a_declared st\<rparr>)"

section \<open>The body rewriter's traversal\<close>

text \<open>A captured update \<^verbatim>\<open>{ name: name, exportAs: exportAs }\<close>.\<close>

record captured =
  c_name :: string
  c_exportAs :: string

text \<open>
  The traversal mutates the body, the \<^verbatim>\<open>alreadyExported\<close> object and the arrays of
  captured updates. \<^verbatim>\<open>capturedUpdates\<close> and \<^verbatim>\<open>previousCapturedUpdates\<close> are
  references that may point to the same array, so the arrays live in a store
  (\<open>arrays\<close>, indexed by allocation order) and the two variables hold indices
  (\<open>None\<close> is \<^verbatim>\<open>null\<close>). The variable \<^verbatim>\<open>blockScope\<close> of the traversal is
  written but never read and is left out.
\<close>

record tstate =
  t_body :: MagicString
  t_alreadyExported :: "string list"
  t_arrays :: "captured list list"
  t_capturedUpdates :: "nat option"
  t_previousCapturedUpdates :: "nat option"

text \<open>What the traversal only reads.\<close>

record tctx =
  ctx_identifierReplacements :: "(string \<times> string) list"
  ctx_importedBindings :: "string list"
  ctx_importedNamespaces :: "string list"
  ctx_exportNames :: "(string \<times> string option) list option"

definition bindingMessage :: string where
  "bindingMessage = ''Cannot reassign imported binding ''"

definition namespaceMessage :: string where
  "namespaceMessage = ''Cannot reassign imported binding of namespace ''"

text \<open>
  \<^verbatim>\<open>disallowIllegalReassignment\<close>: \<open>None\<close> when it returns, the error when it throws.
\<close>

definition reassignment_check ::
  "bool \<Rightarrow> node \<Rightarrow> string list \<Rightarrow> string list \<Rightarrow> scope \<Rightarrow> error option" where
  "reassignment_check isNamespaceAssignment assignee importedBindings importedNamespaces scope =
     (case name_of assignee of
        None \<Rightarrow> None
      | Some name \<Rightarrow>
          if name \<in> set (if isNamespaceAssignment then importedNamespaces else importedBindings)
             \<and> \<not> contains scope name False
          then Some (Error ((if isNamespaceAssignment then namespaceMessage else bindingMessage)
                            @ ''`'' @ name @ ''`''))
          else None)"

definition assignee_of :: "shape \<Rightarrow> node option" where
  "assignee_of sh =
     (case sh of
        AssignmentExpression _ left _ \<Rightarrow> Some left
      | UpdateExpression _ argument \<Rightarrow> Some argument
      | _ \<Rightarrow> None)"

definition disallowIllegalReassignment ::
  "node \<Rightarrow> string list \<Rightarrow> string list \<Rightarrow> scope \<Rightarrow> error option" where
  "disallowIllegalReassignment node importedBindings importedNamespaces scope =
     (case assignee_of (shape node) of
        None \<Rightarrow> None
      | Some assignee \<Rightarrow>
          (case shape assignee of
             MemberExpression _ ob _ \<Rightarrow>
               reassignment_check True ob importedBindings importedNamespaces scope
           | _ \<Rightarrow> reassignment_check False assignee importedBindings importedNamespaces scope))"

text \<open>
  \<^verbatim>\<open>replaceIdentifiers\<close>: the node is an identifier; an empty replacement is falsy.
\<close>

definition replaceIdentifiers ::
  "MagicString \<Rightarrow> node \<Rightarrow> (string \<times> string) list \<Rightarrow> scope \<Rightarrow> error + MagicString" where
  "replaceIdentifiers body node identifierReplacements scope =
     (case name_of node of
        None \<Rightarrow> Inr body
      | Some name \<Rightarrow>
          (case obj_get identifierReplacements name of
             None \<Rightarrow> Inr body
           | Some replacement \<Rightarrow>
               if replacement \<noteq> [] \<and> replacement \<noteq> name \<and> \<not> contains scope name True
               then ms_replace (nstart node) (nend node) replacement body
               else Inr body))"

text \<open>\<^verbatim>\<open>node.operator\<close> of an assignment or update expression.\<close>

definition operator_of :: "shape \<Rightarrow> string" where
  "operator_of sh =
     (case sh of
        AssignmentExpression op _ _ \<Rightarrow> op
      | UpdateExpression op _ \<Rightarrow> op
      | _ \<Rightarrow> [])"

definition rewriteExportAssignments ::
  "node \<Rightarrow> (string \<times> string option) list option \<Rightarrow> scope \<Rightarrow> bool \<Rightarrow> tstate
     \<Rightarrow> error + tstate" where
  "rewriteExportAssignments node exports scope isTopLevelNode st =
     (case assignee_of (shape node) of
        None \<Rightarrow> Inr st
      | Some assignee \<Rightarrow>
          (case name_of assignee of
             None \<Rightarrow> Inr st
           | Some name \<Rightarrow>
               if contains scope name True then Inr st
               else
                 (case exports of
                    None \<Rightarrow> Inr st
                  | Some ex \<Rightarrow>
                      (case obj_get ex name of
                         None \<Rightarrow> Inr st
                       | Some v \<Rightarrow>
                           if \<not> truthy v then Inr st
                           else
                             let exportAs = js_str v in
                             (case t_capturedUpdates st of
                                Some r \<Rightarrow>
                                  Inr (st\<lparr>t_arrays := (t_arrays st)
                                         [r := (t_arrays st) ! r @ [\<lparr>c_name = name, c_exportAs = exportAs\<rparr>]]\<rparr>)
                              | None \<Rightarrow>
                                  and_then
                                    (if operator_of (shape node) = ''++''
                                        \<or> operator_of (shape node) = ''--''
                                     then ms_replace (nend node) (nend node)
                                            ('', exports.'' @ exportAs @ '' = '' @ name) (t_body st)
                                     else ms_replace (nstart node) (nstart node)
                                            (''exports.'' @ exportAs @ '' = '') (t_body st))
                                    (\<lambda>body.
                                       Inr (st\<lparr>t_body := body,
                                               t_alreadyExported :=
                                                 (if isTopLevelNode
                                                  then add_key name (t_alreadyExported st)
                                                  else t_alreadyExported st)\<rparr>)))))))"

text \<open>\<^verbatim>\<open>function exportCapturedUpdate ( c ) { return " exports." + c.name + " = " + c.exportAs + ";"; }\<close>\<close>

definition exportCapturedUpdate :: "captured \<Rightarrow> string" where
  "exportCapturedUpdate c = '' exports.'' @ c_name c @ '' = '' @ c_exportAs c @ '';''"

text \<open>
  The \<^verbatim>\<open>enter\<close> callback for a node that is not skipped. \<open>scope\<close> is the value of the
  traversal's variable \<^verbatim>\<open>scope\<close> after \<^verbatim>\<open>if ( node._scope ) scope = node._scope\<close>;
  \<open>ptype\<close> is \<^verbatim>\<open>parent.type\<close>, and \<open>None\<close> for the root, whose parent is
  \<^verbatim>\<open>null\<close>. The root scope is the only one without a parent, so
  \<^verbatim>\<open>scope === ast._scope\<close> is \<open>scope_parent scope = None\<close>.
\<close>

definition enter :: "tctx \<Rightarrow> scope \<Rightarrow> string option \<Rightarrow> node \<Rightarrow> tstate \<Rightarrow> error + tstate" where
  "enter ctx scope ptype node st =
     (case shape node of
        VariableDeclaration _ _ \<Rightarrow>
          Inr (st\<lparr>t_previousCapturedUpdates := t_capturedUpdates st,
                  t_arrays := t_arrays st @ [[]],
                  t_capturedUpdates := Some (length (t_arrays st))\<rparr>)
      | _ \<Rightarrow>
          (case disallowIllegalReassignment node (ctx_importedBindings ctx) (ctx_importedNamespaces ctx) scope of
             Some err \<Rightarrow> Inl err
           | None \<Rightarrow>
               and_then
                 (rewriteExportAssignments node (ctx_exportNames ctx) scope (scope_parent scope = None) st)
                 (\<lambda>st1.
                    and_then
                      (if ntype (shape node) = ''Identifier''
                       then (case ptype of
                               None \<Rightarrow> Inl (TypeError ''Cannot read property 'type' of null'')
                             | Some pt \<Rightarrow>
                                 if pt \<noteq> ''FunctionExpression''
                                 then and_then
                                        (replaceIdentifiers (t_body st1) node
                                           (ctx_identifierReplacements ctx) scope)
                                        (\<lambda>body. Inr (st1\<lparr>t_body := body\<rparr>))
                                 else Inr st1)
                       else Inr st1)
                      (\<lambda>st2.
                         if shape node = ThisExpression True
                         then and_then (ms_replace (nstart node) (nend node) ''undefined'' (t_body st2))
                                (\<lambda>body. Inr (st2\<lparr>t_body := body\<rparr>))
                         else Inr st2))))"

text \<open>
  The \<^verbatim>\<open>leave\<close> callback. Reading \<^verbatim>\<open>capturedUpdates.length\<close> when the variable is
  \<^verbatim>\<open>null\<close> is a \<^verbatim>\<open>TypeError\<close>.
\<close>

definition leave :: "node \<Rightarrow> tstate \<Rightarrow> error + tstate" where
  "leave node st =
     (case shape node of
        VariableDeclaration _ _ \<Rightarrow>
          (case t_capturedUpdates st of
             None \<Rightarrow> Inl (TypeError ''Cannot read property 'length' of null'')
           | Some r \<Rightarrow>
               and_then
                 (if (t_arrays st) ! r \<noteq> []
                  then ms_insert (nend node)
                         (concat (map exportCapturedUpdate ((t_arrays st) ! r))) (t_body st)
                  else Inr (t_body st))
                 (\<lambda>body. Inr (st\<lparr>t_body := body,
                                 t_capturedUpdates := t_previousCapturedUpdates st\<rparr>)))
      | _ \<Rightarrow> Inr st)"

text \<open>The scope a node's children see: a function node switches to its own scope.\<close>

definition scope_in :: "scope \<Rightarrow> shape \<Rightarrow> scope" where
  "scope_in scope sh = (case sh of Function _ ns _ _ _ \<Rightarrow> Scope ns (Some scope) | _ \<Rightarrow> scope)"

function traverse_node ::
  "tctx \<Rightarrow> scope \<Rightarrow> string option \<Rightarrow> node \<Rightarrow> tstate \<Rightarrow> error + tstate"
  and traverse_nodes ::
  "tctx \<Rightarrow> scope \<Rightarrow> string option \<Rightarrow> node list \<Rightarrow> tstate \<Rightarrow> error + tstate" where
  "traverse_node ctx scope ptype (Node s e sk sh) st =
     (if sk then Inr st
      else
        (case enter ctx (scope_in scope sh) ptype (Node s e sk sh) st of
           Inl err \<Rightarrow> Inl err
         | Inr st1 \<Rightarrow>
             (case traverse_nodes ctx (scope_in scope sh) (Some (ntype sh)) (children sh) st1 of
                Inl err \<Rightarrow> Inl err
              | Inr st2 \<Rightarrow> leave (Node s e sk sh) st2)))"
| "traverse_nodes ctx scope ptype [] st = Inr st"
| "traverse_nodes ctx scope ptype (n # ns) st =
     (case traverse_node ctx scope ptype n st of
        Inl err \<Rightarrow> Inl err
      | Inr st1 \<Rightarrow> traverse_nodes ctx scope ptype ns st1)"
  by pat_completeness auto
termination
proof (relation "measure (\<lambda>x. case x of
          Inl (ctx, scope, ptype, n, st) \<Rightarrow> 2 * size n
        | Inr (ctx, scope, ptype, ns, st) \<Rightarrow> 2 * sum_list (map size ns) + 1)", goal_cases)
  case 1
  then show ?case by simp
next
  case (2 ctx scope ptype s e sk sh st st1)
  show ?case using size_children [of sh] by simp
next
  case (3 ctx scope ptype n ns st)
  then show ?case by simp
next
  case (4 ctx scope ptype n ns st st1)
  have "0 < size n" by (cases n) simp
  then show ?case by simp
qed

section \<open>Modules and their declarations\<close>

text \<open>
  The declaration records are what \<^verbatim>\<open>findImportsAndExports\<close> produces from the
  parser's tree; like the tree they are inputs of the model. An import specifier is
  \<^verbatim>\<open>{ isBatch, isDefault, name, as }\<close>; an export specifier is its \<^verbatim>\<open>name\<close>.
\<close>

record specifier =
  s_isBatch :: bool
  s_isDefault :: bool
  s_name :: string
  s_as :: string

record import_decl =
  i_id :: string
  i_start :: nat
  i_end :: nat
  i_next :: nat
  i_passthrough :: bool
  i_path :: string
  i_specifiers :: "specifier list"
  i_name :: string

text \<open>The flags \<^verbatim>\<open>processImport\<close> derives from the specifiers.\<close>

definition i_isEmpty :: "import_decl \<Rightarrow> bool" where
  "i_isEmpty x = (i_specifiers x = [])"

definition i_isDefault :: "import_decl \<Rightarrow> bool" where
  "i_isDefault x = (case i_specifiers x of [s] \<Rightarrow> s_isDefault s | _ \<Rightarrow> False)"

definition i_isBatch :: "import_decl \<Rightarrow> bool" where
  "i_isBatch x = (case i_specifiers x of [s] \<Rightarrow> \<not> s_isDefault s \<and> s_isBatch s | _ \<Rightarrow> False)"

definition i_isNamed :: "import_decl \<Rightarrow> bool" where
  "i_isNamed x = (\<not> i_isEmpty x \<and> \<not> i_isDefault x \<and> \<not> i_isBatch x)"

definition i_as :: "import_decl \<Rightarrow> string option" where
  "i_as x =
     (case i_specifiers x of
        [s] \<Rightarrow> if s_isDefault s then Some (s_as s)
               else if s_isBatch s then Some (s_name s) else None
      | _ \<Rightarrow> None)"

text \<open>
  An export declaration. \<open>e_type\<close> is one of \<^verbatim>\<open>varDeclaration\<close>,
  \<^verbatim>\<open>namedFunction\<close>, \<^verbatim>\<open>namedClass\<close>, \<^verbatim>\<open>named\<close>, \<^verbatim>\<open>anonFunction\<close>,
  \<^verbatim>\<open>anonClass\<close>, \<^verbatim>\<open>expression\<close>; \<open>e_declName\<close> is
  \<^verbatim>\<open>x.node.declaration.name\<close> (present when the declaration is an identifier).
\<close>

record export_decl =
  e_isDefault :: bool
  e_start :: nat
  e_end :: nat
  e_next :: nat
  e_valueStart :: nat
  e_type :: string
  e_name :: "string option"
  e_hasDeclaration :: bool
  e_value :: string
  e_specifiers :: "string list option"
  e_declName :: "string option"
  e_isFinal :: bool

record module =
  m_id :: string
  m_relativePath :: string
  m_path :: string
  m_name :: string
  m_body :: MagicString
  m_ast :: ast
  m_imports :: "import_decl list"
  m_exports :: "export_decl list"
  m_defaultExport :: "export_decl option"
  m_identifierReplacements :: "(string \<times> string) list"
  m_doesExport :: "string list"
  m_exportsNamespace :: bool

text \<open>\<^verbatim>\<open>xs.join( sep )\<close>\<close>

fun js_join :: "string \<Rightarrow> string list \<Rightarrow> string" where
  "js_join sep [] = []"
| "js_join sep [p] = p"
| "js_join sep (p # q # ps) = p @ sep @ js_join sep (q # ps)"

section \<open>Read-only identifiers, import replacements, export names\<close>

text \<open>
  \<^verbatim>\<open>getReadOnlyIdentifiers\<close>: the own keys of \<^verbatim>\<open>importedBindings\<close> and of
  \<^verbatim>\<open>importedNamespaces\<close>.
\<close>

definition getReadOnlyIdentifiers :: "import_decl list \<Rightarrow> string list \<times> string list" where
  "getReadOnlyIdentifiers imports =
     foldl (\<lambda>acc s. if s_isBatch s then (fst acc, add_key (s_as s) (snd acc))
                     else (add_key (s_as s) (fst acc), snd acc))
       ([], []) (concat (map (\<lambda>x. if i_passthrough x then [] else i_specifiers x) imports))"

text \<open>\<^verbatim>\<open>gatherImports\<close> of the single-file rewriter: \<^verbatim>\<open>[ chains, identifierReplacements ]\<close>.\<close>

definition gather_specifier ::
  "import_decl \<Rightarrow> specifier \<Rightarrow> (string \<times> string) list \<times> (string \<times> string) list
     \<Rightarrow> (string \<times> string) list \<times> (string \<times> string) list" where
  "gather_specifier x s acc =
     (if s_isBatch s then acc
      else
        let name = s_as s;
            replacement = i_name x @ (if s_isDefault s then ''['default']'' else ''.'' @ s_name s)
        in (obj_set name replacement (fst acc),
            (if i_passthrough x then snd acc else obj_set name replacement (snd acc))))"

definition gatherImports ::
  "import_decl list \<Rightarrow> (string \<times> string) list \<times> (string \<times> string) list" where
  "gatherImports imports =
     foldl (\<lambda>acc x. foldl (\<lambda>acc s. gather_specifier x s acc) acc (i_specifiers x)) ([], []) imports"

text \<open>
  \<^verbatim>\<open>getExportNames\<close>. The value stored for an exported declaration is its
  \<^verbatim>\<open>name\<close>, which is \<^verbatim>\<open>undefined\<close> (\<open>None\<close>) when the declared thing is a pattern;
  the key is then the string \<^verbatim>\<open>undefined\<close>. A declaration without
  \<^verbatim>\<open>hasDeclaration\<close> and without specifiers does not come out of the extractor; for
  it the loop over \<^verbatim>\<open>x.specifiers\<close> is a \<^verbatim>\<open>TypeError\<close>.
\<close>

definition getExportNames :: "export_decl list \<Rightarrow> error + (string \<times> string option) list" where
  "getExportNames exports =
     each (\<lambda>x result.
             if e_isDefault x then Inr result
             else if e_hasDeclaration x then Inr (obj_set (js_str (e_name x)) (e_name x) result)
             else (case e_specifiers x of
                     None \<Rightarrow> Inl (TypeError ''Cannot read property 'forEach' of undefined'')
                   | Some ss \<Rightarrow> Inr (foldl (\<lambda>result s. obj_set s (Some s) result) result ss)))
       exports []"

text \<open>
  \<^verbatim>\<open>function deconflict ( name, declared ) { while ( hasOwnProp.call( declared, name ) ) { name = '_' + name; } return name; }\<close>
\<close>

lemma length_filter_longer:
  "name \<in> set declared \<Longrightarrow>
   length (filter (\<lambda>d. Suc (length name) \<le> length d) declared)
     < length (filter (\<lambda>d. length name \<le> length d) declared)"
proof (induction declared)
  case Nil
  then show ?case by simp
next
  case (Cons d ds)
  have "length (filter (\<lambda>d. Suc (length name) \<le> length d) ds)
          \<le> length (filter (\<lambda>d. length name \<le> length d) ds)"
    by (induction ds) auto
  with Cons show ?case by auto
qed

function deconflict :: "string \<Rightarrow> string list \<Rightarrow> string" where
  "deconflict name declared =
     (if name \<in> set declared then deconflict (CHR ''_'' # name) declared else name)"
  by pat_completeness auto
termination
  by (relation "measure (\<lambda>(name, declared).
        length (filter (\<lambda>d. length name \<le> length d) declared))")
     (auto simp: length_filter_longer)

section \<open>The traversal as the rewriters call it\<close>

definition traverseAst ::
  "ast \<Rightarrow> MagicString \<Rightarrow> (string \<times> string) list \<Rightarrow> string list \<Rightarrow> string list
     \<Rightarrow> (string \<times> string option) list option \<Rightarrow> string list
     \<Rightarrow> error + (MagicString \<times> string list)" where
  "traverseAst ast body identifierReplacements importedBindings importedNamespaces exportNames
       alreadyExported =
     (case traverse_node
             \<lparr>ctx_identifierReplacements = identifierReplacements,
              ctx_importedBindings = importedBindings,
              ctx_importedNamespaces = importedNamespaces,
              ctx_exportNames = exportNames\<rparr>
             (Scope (ast_scope ast) None) None (ast_root ast)
             \<lparr>t_body = body, t_alreadyExported = alreadyExported, t_arrays = [],
              t_capturedUpdates = None, t_previousCapturedUpdates = None\<rparr> of
        Inl err \<Rightarrow> Inl err
      | Inr st \<Rightarrow> Inr (t_body st, t_alreadyExported st))"

section \<open>The single-file rewriter (\<^verbatim>\<open>utils/transformBody\<close>)\<close>

record tb_options =
  o_header :: "string option"
  o_intro :: "string option"
  o_outro :: "string option"
  o_evilES3SafeReExports :: bool

definition remove_imports :: "import_decl list \<Rightarrow> MagicString \<Rightarrow> error + MagicString" where
  "remove_imports imports body =
     each (\<lambda>x body. if i_passthrough x then Inr body else ms_remove (i_start x) (i_next x) body)
       imports body"

text \<open>\<^verbatim>\<open>/^named/.test( x.type )\<close>\<close>

definition starts_named :: "string \<Rightarrow> bool" where
  "starts_named t = (take 5 t = ''named'')"

definition strict_export_edit :: "export_decl \<Rightarrow> MagicString \<Rightarrow> error + MagicString" where
  "strict_export_edit x body =
     (if e_isDefault x then
        (if starts_named (e_type x)
         then and_then (ms_remove (e_start x) (e_valueStart x) body)
                (ms_insert (e_end x) (''\<newline>exports['default'] = '' @ js_str (e_name x) @ '';''))
         else ms_replace (e_start x) (e_valueStart x) ''exports['default'] = '' body)
      else if e_type x = ''varDeclaration'' \<or> e_type x = ''namedFunction''
              \<or> e_type x = ''namedClass''
        then ms_remove (e_start x) (e_valueStart x) body
      else if e_type x = ''named'' then ms_remove (e_start x) (e_next x) body
      else ms_replace (e_start x) (e_valueStart x) ''exports['default'] = '' body)"

text \<open>
  One step of the loop over \<^verbatim>\<open>Object.keys( exportNames )\<close>:
  \<^verbatim>\<open>( earlyExports, lateExports )\<close>. The calls \<^verbatim>\<open>chains.hasOwnProperty( name )\<close> and
  \<^verbatim>\<open>alreadyExported.hasOwnProperty( name )\<close> go through the table itself: when the
  table owns the key \<^verbatim>\<open>hasOwnProperty\<close> the value found there is not a function.
\<close>

definition export_line ::
  "(string \<times> string) list \<Rightarrow> string list \<Rightarrow> string list \<Rightarrow> bool
     \<Rightarrow> string \<times> string option \<Rightarrow> string list \<times> string list
     \<Rightarrow> error + string list \<times> string list" where
  "export_line chainMap topLevelFunctionNames alreadyExported evil kv acc =
     (let name = fst kv; exportAs = js_str (snd kv) in
      if obj_get chainMap ''hasOwnProperty'' \<noteq> None
      then Inl (TypeError ''chains.hasOwnProperty is not a function'')
      else
        (case obj_get chainMap name of
           Some chain \<Rightarrow>
             if \<not> evil
             then Inr (fst acc @ [''Object.defineProperty(exports, '' @ [CHR 0x27] @ exportAs
                              @ [CHR 0x27] @ '', { enumerable: true, get: function () { return ''
                              @ chain @ ''; }});''], snd acc)
             else Inr (fst acc, snd acc @ [''exports.'' @ exportAs @ '' = '' @ chain @ '';''])
         | None \<Rightarrow>
             if name \<in> set topLevelFunctionNames
             then Inr (fst acc @ [''exports.'' @ exportAs @ '' = '' @ name @ '';''], snd acc)
             else if ''hasOwnProperty'' \<in> set alreadyExported
             then Inl (TypeError ''alreadyExported.hasOwnProperty is not a function'')
             else if name \<notin> set alreadyExported
             then Inr (fst acc, snd acc @ [''exports.'' @ exportAs @ '' = '' @ name @ '';''])
             else Inr acc))"

definition utils_transformBody ::
  "module \<Rightarrow> MagicString \<Rightarrow> tb_options \<Rightarrow> error + MagicString" where
  "utils_transformBody mdl body0 options =
     (let (chainMap, identifierReplacements0) = gatherImports (m_imports mdl);
          (importedBindings, importedNamespaces) = getReadOnlyIdentifiers (m_imports mdl);
          identifierReplacements =
            obj_set ''exports'' (deconflict ''exports'' (ast_declared (m_ast mdl)))
              identifierReplacements0
      in and_then (getExportNames (m_exports mdl)) (\<lambda>exportNames.
         and_then (traverseAst (m_ast mdl) body0 identifierReplacements importedBindings
                     importedNamespaces (Some exportNames) []) (\<lambda>(body1, alreadyExported).
         and_then (remove_imports (m_imports mdl) body1) (\<lambda>body2.
         let body3 = (case o_header options of
                        None \<Rightarrow> body2
                      | Some header \<Rightarrow>
                          if header = [] then body2
                          else ms_prepend (header @ ''\<newline>\<newline>'') body2)
         in and_then (each strict_export_edit (m_exports mdl) body3) (\<lambda>body4.
            and_then (each (export_line chainMap (ast_topLevelFunctionNames (m_ast mdl))
                              alreadyExported (o_evilES3SafeReExports options))
                        exportNames ([], [])) (\<lambda>(earlyExports, lateExports).
            let body5 = (if earlyExports \<noteq> []
                         then ms_prepend (js_join ''\<newline>'' earlyExports @ ''\<newline>\<newline>'') (ms_trim body4)
                         else body4);
                body6 = (if lateExports \<noteq> []
                         then ms_append (''\<newline>\<newline>'' @ js_join ''\<newline>'' lateExports) (ms_trim body5)
                         else body5)
            in Inr (case (o_intro options, o_outro options) of
                      (Some intro, Some outro) \<Rightarrow>
                        if intro \<noteq> [] \<and> outro \<noteq> []
                        then ms_append outro (ms_trimLines (ms_prepend intro (ms_indent body6)))
                        else body6
                    | _ \<Rightarrow> body6)))))))"

section \<open>Bundles: planning\<close>

record external_module =
  x_id :: string
  x_name :: string
  x_needsDefault :: bool
  x_needsNamed :: bool

text \<open>
  A bundle after loading. \<^verbatim>\<open>moduleLookup\<close> and \<^verbatim>\<open>externalModuleLookup\<close> point to
  the objects of \<^verbatim>\<open>modules\<close> and \<^verbatim>\<open>externalModules\<close>; the model looks an id up in
  the lists. \<open>b_exports\<close> is \<^verbatim>\<open>bundle.exports\<close>, from module id to the object that
  maps a local name to its output name; \<open>b_chains\<close> is \<^verbatim>\<open>bundle.chains\<close>.
\<close>

record Bundle =
  b_entry :: string
  b_modules :: "module list"
  b_externalModules :: "external_module list"
  b_chains :: "(string \<times> string) list"
  b_exports :: "(string \<times> (string \<times> string) list) list"
  b_body :: MagicString

definition moduleLookup :: "Bundle \<Rightarrow> string \<Rightarrow> module option" where
  "moduleLookup b i = find (\<lambda>m. m_id m = i) (b_modules b)"

text \<open>
  \<^verbatim>\<open>hasOwnProp.call( bundle.externalModuleLookup, id ) && bundle.externalModuleLookup[ id ]\<close>:
  the table owns the id of every external module except \<^verbatim>\<open>__proto__\<close>.
\<close>

definition externalModuleLookup :: "Bundle \<Rightarrow> string \<Rightarrow> external_module option" where
  "externalModuleLookup b i =
     (if i = proto_key then None else find (\<lambda>m. x_id m = i) (b_externalModules b))"

definition entryModule :: "Bundle \<Rightarrow> module option" where
  "entryModule b = moduleLookup b (b_entry b)"


text \<open>
  \<^verbatim>\<open>getUnscopedNames\<close>: the identifiers met by a walk of the annotated tree that no
  enclosing scope contains and no import binds, each once, in the order met.
  \<open>importedNames\<close> are the own keys of the table of that name.
\<close>

definition unscoped_enter :: "string list \<Rightarrow> scope \<Rightarrow> node \<Rightarrow> string list \<Rightarrow> string list" where
  "unscoped_enter importedNames scope node unscoped =
     (case name_of node of
        None \<Rightarrow> unscoped
      | Some name \<Rightarrow>
          if \<not> contains scope name False \<and> name \<notin> set importedNames \<and> name \<notin> set unscoped
          then unscoped @ [name] else unscoped)"

function unscoped_node :: "string list \<Rightarrow> scope \<Rightarrow> node \<Rightarrow> string list \<Rightarrow> string list"
  and unscoped_nodes :: "string list \<Rightarrow> scope \<Rightarrow> node list \<Rightarrow> string list \<Rightarrow> string list" where
  "unscoped_node importedNames scope (Node s e sk sh) unscoped =
     (if sk then unscoped
      else unscoped_nodes importedNames (scope_in scope sh) (children sh)
             (unscoped_enter importedNames (scope_in scope sh) (Node s e sk sh) unscoped))"
| "unscoped_nodes importedNames scope [] unscoped = unscoped"
| "unscoped_nodes importedNames scope (n # ns) unscoped =
     unscoped_nodes importedNames scope ns (unscoped_node importedNames scope n unscoped)"
  by pat_completeness auto
termination
proof (relation "measure (\<lambda>x. case x of
          Inl (im, scope, n, u) \<Rightarrow> 2 * size n
        | Inr (im, scope, ns, u) \<Rightarrow> 2 * sum_list (map size ns) + 1)", goal_cases)
  case 1
  then show ?case by simp
next
  case (2 importedNames scope s e sk sh unscoped)
  show ?case using size_children [of sh] by simp
next
  case (3 importedNames scope n ns unscoped)
  then show ?case by simp
next
  case (4 importedNames scope n ns unscoped)
  have "0 < size n" by (cases n) simp
  then show ?case by simp
qed

definition getUnscopedNames :: "module \<Rightarrow> string list" where
  "getUnscopedNames mdl =
     unscoped_node
       (foldl (\<lambda>ks k. add_key k ks) []
          (concat (map (\<lambda>i. if i_passthrough i then [] else map s_as (i_specifiers i))
                     (m_imports mdl))))
       (Scope (ast_scope (m_ast mdl)) None) (ast_root (m_ast mdl)) []"











section \<open>Bundles: re-export chains\<close>

text \<open>\<^verbatim>\<open>resolveChains\<close>, without its marking of namespace-exporting modules.\<close>

definition chain_origin :: "module \<Rightarrow> (string \<times> string) list" where
  "chain_origin mdl =
     foldl (\<lambda>origin x.
              foldl (\<lambda>origin s. if s_isBatch s then origin
                                 else obj_set (s_as s) (i_id x @ ''@'' @ s_name s) origin)
                origin (i_specifiers x))
       [] (m_imports mdl)"

definition chain_module :: "(string \<times> string) list \<Rightarrow> module \<Rightarrow> (string \<times> string) list" where
  "chain_module acc mdl =
     foldl (\<lambda>acc s.
              case obj_get (chain_origin mdl) s of
                None \<Rightarrow> acc
              | Some target \<Rightarrow> obj_set (m_id mdl @ ''@'' @ s) target acc)
       acc
       (concat (map (\<lambda>x. case e_specifiers x of None \<Rightarrow> [] | Some ss \<Rightarrow> ss) (m_exports mdl)))"

definition resolveChains :: "module list \<Rightarrow> (string \<times> string) list" where
  "resolveChains modules = foldl chain_module [] modules"

section \<open>Bundles: the rewriter of one module (\<^verbatim>\<open>bundler/combine/transformBody\<close>)\<close>






section \<open>Options, results and small helpers of the emitters\<close>

text \<open>
  The options object of the public methods. A string option that is absent is
  \<open>None\<close>; JavaScript treats an absent and an empty string alike as falsy.
  \<open>opt_sourceMap\<close> is \<^verbatim>\<open>'inline'\<close> or any other truthy value.
\<close>

record options =
  opt_strict :: bool
  opt_name :: "string option"
  opt_amdName :: "string option"
  opt_absolutePaths :: bool
  opt_sourceMap :: "string option"
  opt_sourceMapFile :: "string option"
  opt_sourceMapSource :: "string option"
  opt_banner :: "string option"
  opt_footer :: "string option"
  opt_evilES3SafeReExports :: bool
  opt_defaultOnly :: bool
  opt_getModuleName :: "(string \<Rightarrow> string option) option"

text \<open>
  The result \<^verbatim>\<open>{ code, map }\<close>. Source maps are made by the buffer library; the
  model records that a map was requested (\<open>r_map\<close>) and takes the text of an inline
  map as the parameter \<open>toUrl\<close> of the emitters.
\<close>

record result =
  r_code :: string
  r_map :: bool

datatype format = amd | cjs | umd

text \<open>Printing a number into a string, as \<^verbatim>\<open>'__dep' + importNames.length + '__'\<close> does.\<close>

definition digit_char :: "nat \<Rightarrow> char" where
  "digit_char d = char_of (48 + d)"

fun show_nat :: "nat \<Rightarrow> string" where
  "show_nat n = (if n < 10 then [digit_char n] else show_nat (n div 10) @ [digit_char (n mod 10)])"

declare show_nat.simps [simp del]

text \<open>
  \<^verbatim>\<open>function quote ( str ) { return "'" + JSON.stringify(str).slice(1, -1).replace(/'/g, "\\'") + "'"; }\<close>
\<close>

definition hex_digit :: "nat \<Rightarrow> char" where
  "hex_digit d = (if d < 10 then char_of (48 + d) else char_of (87 + d))"

definition json_escape_char :: "char \<Rightarrow> string" where
  "json_escape_char c =
     (if c = CHR 0x22 then [CHR 0x5C, CHR 0x22]
      else if c = CHR 0x5C then [CHR 0x5C, CHR 0x5C]
      else if c = CHR 0x08 then [CHR 0x5C, CHR ''b'']
      else if c = CHR 0x0C then [CHR 0x5C, CHR ''f'']
      else if c = CHR 0x0A then [CHR 0x5C, CHR ''n'']
      else if c = CHR 0x0D then [CHR 0x5C, CHR ''r'']
      else if c = CHR 0x09 then [CHR 0x5C, CHR ''t'']
      else if of_char c < (32::nat)
        then [CHR 0x5C, CHR ''u'', CHR ''0'', CHR ''0'',
              hex_digit (of_char c div 16), hex_digit (of_char c mod 16)]
      else [c])"

definition quote :: "string \<Rightarrow> string" where
  "quote str =
     [CHR 0x27]
       @ concat (map (\<lambda>c. if c = CHR 0x27 then [CHR 0x5C, CHR 0x27] else [c])
                   (concat (map json_escape_char str)))
       @ [CHR 0x27]"

definition req :: "string \<Rightarrow> string" where
  "req path = ''require('' @ quote path @ '')''"

text \<open>\<^verbatim>\<open>/^__dep\d+__$/.test( name )\<close>\<close>

definition is_digit :: "char \<Rightarrow> bool" where
  "is_digit c = (48 \<le> (of_char c :: nat) \<and> (of_char c :: nat) \<le> 57)"

definition is_dep_placeholder :: "string \<Rightarrow> bool" where
  "is_dep_placeholder name =
     (take 5 name = ''__dep''
      \<and> (let rest = drop 5 name; ds = takeWhile is_digit rest
         in ds \<noteq> [] \<and> dropWhile is_digit rest = ''__''))"

definition globalify :: "string \<Rightarrow> string" where
  "globalify name = (if is_dep_placeholder name then ''undefined'' else ''global.'' @ name)"

text \<open>\<^verbatim>\<open>intro.replace( /\t/g, indentStr )\<close>\<close>

definition replace_tabs :: "string \<Rightarrow> string \<Rightarrow> string" where
  "replace_tabs indentStr s = concat (map (\<lambda>c. if c = CHR 0x09 then indentStr else [c]) s)"

text \<open>\<^verbatim>\<open>isAbsolutePath\<close>: \<^verbatim>\<open>/^(?:[A-Z]:)?[\/\\]/i\<close>\<close>

definition is_letter :: "char \<Rightarrow> bool" where
  "is_letter c =
     ((97 \<le> (of_char c :: nat) \<and> (of_char c :: nat) \<le> 122)
      \<or> (65 \<le> (of_char c :: nat) \<and> (of_char c :: nat) \<le> 90))"

definition isAbsolutePath :: "string \<Rightarrow> bool" where
  "isAbsolutePath p =
     (case p of
        [] \<Rightarrow> False
      | c # cs \<Rightarrow>
          pathSplitRE c
          \<or> (is_letter c \<and> (case cs of d # s # _ \<Rightarrow> d = CHR '':'' \<and> pathSplitRE s | _ \<Rightarrow> False)))"

text \<open>\<^verbatim>\<open>getRelativePath\<close>, used for the \<^verbatim>\<open>source\<close> of a map; a model of it is not needed.\<close>

section \<open>\<^verbatim>\<open>packageResult\<close>\<close>

text \<open>
  The body is passed in and the result is returned; the one-shot \<^verbatim>\<open>warned\<close> flag is
  touched by the \<^verbatim>\<open>toString\<close> of the result only, not by this function.
\<close>

definition packageResult ::
  "(MagicString \<Rightarrow> string) \<Rightarrow> MagicString \<Rightarrow> options \<Rightarrow> bool \<Rightarrow> (error + result) \<times> MagicString" where
  "packageResult toUrl body0 options isBundle =
     (let body1 = (if truthy (opt_banner options)
                   then ms_prepend (js_str (opt_banner options)) body0 else body0);
          body2 = (if truthy (opt_footer options)
                   then ms_append (js_str (opt_footer options)) body1 else body1);
          code = ms_toString body2
      in if truthy (opt_sourceMap options) then
           (if opt_sourceMap options \<noteq> Some ''inline'' \<and> \<not> truthy (opt_sourceMapFile options)
            then (Inl (Error ''You must provide `sourceMapFile` option''), body2)
            else if \<not> isBundle \<and> \<not> truthy (opt_sourceMapSource options)
            then (Inl (Error ''You must provide `sourceMapSource` option''), body2)
            else if opt_sourceMap options = Some ''inline''
            then (Inr \<lparr>r_code = code @ ''\<newline>//# sourceMappingURL='' @ toUrl body2, r_map = False\<rparr>,
                  body2)
            else
              (let f = js_str (opt_sourceMapFile options);
                   sourceMapFile = (if isAbsolutePath f then f else ''./'' @ last (splitPath f))
               in (Inr \<lparr>r_code = code @ ''\<newline>//# sourceMappingURL='' @ sourceMapFile @ ''.map'',
                         r_map = True\<rparr>, body2)))
         else (Inr \<lparr>r_code = code, r_map = False\<rparr>, body2))"

section \<open>\<^verbatim>\<open>requireName\<close> and the universal intros\<close>

definition requireName :: "options \<Rightarrow> error option" where
  "requireName options =
     (if \<not> truthy (opt_name options)
      then Some (EsperantoError ''You must supply a `name` option for UMD modules'' ''MISSING_NAME'')
      else None)"

definition missing_name :: error where
  "missing_name = EsperantoError ''You must supply a `name` option for UMD modules'' ''MISSING_NAME''"

definition amdName_quoted :: "options \<Rightarrow> string" where
  "amdName_quoted options =
     (if truthy (opt_amdName options) then quote (js_str (opt_amdName options)) @ '', '' else [])"

definition amdName_plain :: "options \<Rightarrow> string" where
  "amdName_plain options =
     (if truthy (opt_amdName options)
      then [CHR 0x27] @ js_str (opt_amdName options) @ [CHR 0x27] @ '', '' else [])"

definition standaloneUmdIntro :: "options \<Rightarrow> string \<Rightarrow> string" where
  "standaloneUmdIntro options indentStr =
     replace_tabs indentStr
       (''(function (factory) {\<newline>''
        @ [CHR 0x09] @ ''!(typeof exports === 'object' && typeof module !== 'undefined') &&\<newline>''
        @ [CHR 0x09] @ ''typeof define === 'function' && define.amd ? define(''
        @ amdName_quoted options @ ''factory) :\<newline>''
        @ [CHR 0x09] @ ''factory()\<newline>''
        @ ''}(function () { 'use strict';\<newline>\<newline>'')"

text \<open>
  \<^verbatim>\<open>resolveAgainst( options.amdName )\<close> with an absent \<^verbatim>\<open>amdName\<close> fails inside
  \<^verbatim>\<open>splitPath\<close> for a relative import; the public methods reject
  \<^verbatim>\<open>absolutePaths\<close> without \<^verbatim>\<open>amdName\<close> before any builder runs.
\<close>

definition import_paths_for :: "options \<Rightarrow> string list \<Rightarrow> string list" where
  "import_paths_for options importPaths =
     (if opt_absolutePaths options
      then map (\<lambda>p. resolveId p (js_str (opt_amdName options))) importPaths
      else importPaths)"

definition defaultUmdIntro ::
  "options \<Rightarrow> bool \<Rightarrow> bool \<Rightarrow> string list \<Rightarrow> string list \<Rightarrow> string \<Rightarrow> string" where
  "defaultUmdIntro options absolutePaths hasExports importPaths importNames indentStr =
     (let amdDeps = (if importPaths \<noteq> []
                     then ''['' @ js_join '', ''
                            (map quote (if absolutePaths
                                        then map (\<lambda>p. resolveId p (js_str (opt_amdName options))) importPaths
                                        else importPaths)) @ ''], ''
                     else []);
          cjsDeps = js_join '', '' (map req importPaths);
          globalDeps = js_join '', '' (map globalify importNames);
          args = js_join '', '' importNames;
          cjsExport = (if hasExports then ''module.exports = '' else []) @ ''factory('' @ cjsDeps @ '')'';
          globalExport = (if hasExports then ''global.'' @ js_str (opt_name options) @ '' = '' else [])
                           @ ''factory('' @ globalDeps @ '')''
      in replace_tabs indentStr
           (''(function (global, factory) {\<newline>''
            @ [CHR 0x09] @ ''typeof exports === 'object' && typeof module !== 'undefined' ? ''
            @ cjsExport @ '' :\<newline>''
            @ [CHR 0x09] @ ''typeof define === 'function' && define.amd ? define(''
            @ amdName_quoted options @ amdDeps @ ''factory) :\<newline>''
            @ [CHR 0x09] @ globalExport @ ''\<newline>''
            @ ''}(this, function ('' @ args @ '') { 'use strict';\<newline>\<newline>''))"

definition default_line :: "external_module \<Rightarrow> string" where
  "default_line x =
     (if x_needsNamed x then ''var '' @ x_name x @ ''__default'' else x_name x)
       @ '' = ('' @ [CHR 0x27] @ ''default'' @ [CHR 0x27] @ '' in '' @ x_name x @ '' ? '' @ x_name x
       @ ''['default'] : '' @ x_name x @ '');''"

definition strictUmdIntro ::
  "options \<Rightarrow> bool \<Rightarrow> string list \<Rightarrow> string list \<Rightarrow> external_module list \<Rightarrow> string \<Rightarrow> string" where
  "strictUmdIntro options hasExports importPaths importNames externalDefaults indentStr =
     (let amdDeps = (if hasExports \<or> importPaths \<noteq> []
                     then ''['' @ js_join '', ''
                            (map quote ((if hasExports then [''exports''] else [])
                                          @ import_paths_for options importPaths)) @ ''], ''
                     else []);
          cjsDeps = js_join '', '' ((if hasExports then [''exports''] else []) @ map req importPaths);
          globalDeps = js_join '', ''
                         ((if hasExports then [''(global.'' @ js_str (opt_name options) @ '' = {})''] else [])
                            @ map globalify importNames);
          args = js_join '', '' ((if hasExports then [''exports''] else []) @ importNames);
          defaultsBlock = (if externalDefaults \<noteq> []
                           then js_join ''\<newline>'' (map (\<lambda>x. [CHR 0x09] @ default_line x) externalDefaults)
                                  @ ''\<newline>\<newline>''
                           else [])
      in replace_tabs indentStr
           (''(function (global, factory) {\<newline>''
            @ [CHR 0x09] @ ''typeof exports === 'object' && typeof module !== 'undefined' ? factory(''
            @ cjsDeps @ '') :\<newline>''
            @ [CHR 0x09] @ ''typeof define === 'function' && define.amd ? define(''
            @ amdName_plain options @ amdDeps @ ''factory) :\<newline>''
            @ [CHR 0x09] @ ''factory('' @ globalDeps @ '')\<newline>''
            @ ''}(this, function ('' @ args @ '') { 'use strict';\<newline>\<newline>''
            @ defaultsBlock))"

section \<open>Single-file emitters, defaults mode\<close>

fun add_placeholders :: "nat \<Rightarrow> string list \<Rightarrow> string list" where
  "add_placeholders 0 importNames = importNames"
| "add_placeholders (Suc placeholders) importNames =
     add_placeholders placeholders (importNames @ [''__dep'' @ show_nat (length importNames) @ ''__''])"

text \<open>
  One round of the loop over \<^verbatim>\<open>mod.imports\<close> in \<^verbatim>\<open>amd\<close> and \<^verbatim>\<open>umd\<close>: the state is
  \<^verbatim>\<open>( seen, importPaths, importNames, placeholders )\<close> and the body.
\<close>

definition summary_step ::
  "string \<Rightarrow> string option \<Rightarrow> string list \<times> string list \<times> string list \<times> nat
     \<Rightarrow> string list \<times> string list \<times> string list \<times> nat" where
  "summary_step path name acc =
     (case acc of (seen, importPaths, importNames, placeholders) \<Rightarrow>
        if path \<in> set seen then acc
        else if truthy name
        then (add_key path seen, importPaths @ [path],
              add_placeholders placeholders importNames @ [js_str name], 0)
        else (add_key path seen, importPaths @ [path], importNames, Suc placeholders))"

definition default_import_summary ::
  "(string \<Rightarrow> string) \<Rightarrow> import_decl list \<Rightarrow> string list \<times> string list" where
  "default_import_summary pathOf imports =
     (case foldl (\<lambda>acc x. summary_step (pathOf (i_path x)) (i_as x) acc) ([], [], [], 0) imports of
        (seen, importPaths, importNames, placeholders) \<Rightarrow> (importPaths, importNames))"

definition remove_all_imports :: "import_decl list \<Rightarrow> MagicString \<Rightarrow> error + MagicString" where
  "remove_all_imports imports body = each (\<lambda>x. ms_remove (i_start x) (i_next x)) imports body"

text \<open>\<^verbatim>\<open>body.original[ declaration.end - 1 ] !== ';'\<close>\<close>

definition original_char_is :: "MagicString \<Rightarrow> nat \<Rightarrow> char \<Rightarrow> bool" where
  "original_char_is body i c = (i < length (ms_original body) \<and> ms_original body ! i = c)"

definition transformExportDeclaration :: "export_decl option \<Rightarrow> MagicString \<Rightarrow> error + MagicString" where
  "transformExportDeclaration declaration body =
     (case declaration of
        None \<Rightarrow> Inr body
      | Some d \<Rightarrow>
          let semi = (\<lambda>b. if (0 < e_end d \<and> original_char_is body (e_end d - 1) CHR '';'') then Inr b
                          else ms_insert (e_end d) '';'' b);
              finish = (\<lambda>exportedValue b.
                          if truthy exportedValue
                          then ms_append (''\<newline>return '' @ js_str exportedValue @ '';'') b else b)
          in if e_type d = ''namedFunction'' \<or> e_type d = ''namedClass''
             then and_then (ms_remove (e_start d) (e_valueStart d) body)
                    (\<lambda>b. Inr (finish (e_name d) b))
             else if e_type d = ''anonFunction'' \<or> e_type d = ''anonClass''
             then (if e_isFinal d
                   then and_then (ms_replace (e_start d) (e_valueStart d) ''return '' body) semi
                   else and_then (ms_replace (e_start d) (e_valueStart d) ''var __export = '' body)
                          (\<lambda>b. and_then (semi b) (\<lambda>b. Inr (finish (Some ''__export'') b))))
             else if e_type d = ''expression''
             then and_then (ms_remove (e_start d) (e_next d) body)
                    (\<lambda>b. Inr (finish (Some (e_value d)) b))
             else Inl (Error (''Unexpected export type '' @ [CHR 0x27] @ e_type d @ [CHR 0x27])))"

definition first_export :: "module \<Rightarrow> export_decl option" where
  "first_export mdl = (case m_exports mdl of [] \<Rightarrow> None | x # _ \<Rightarrow> Some x)"

definition amd_amd :: "(MagicString \<Rightarrow> string) \<Rightarrow> module \<Rightarrow> options \<Rightarrow> error + result" where
  "amd_amd toUrl mdl options =
     (let (importPaths, importNames) =
            default_import_summary
              (\<lambda>p. if opt_absolutePaths options then resolveId p (js_str (opt_amdName options)) else p)
              (m_imports mdl)
      in case and_then (remove_all_imports (m_imports mdl) (m_body mdl))
                (transformExportDeclaration (first_export mdl)) of
           Inl err \<Rightarrow> Inl err
         | Inr body2 \<Rightarrow>
             let intro = ''define('' @ amdName_plain options
                           @ (if importPaths \<noteq> []
                              then ''['' @ js_join '', '' (map quote importPaths) @ ''], '' else [])
                           @ ''function ('' @ js_join '', '' importNames @ '') {\<newline>\<newline>'';
                 body3 = ms_append ''\<newline>\<newline>});''
                           (ms_prepend intro
                              (ms_indent (ms_trim (ms_prepend '''use strict';\<newline>\<newline>'' (ms_trim body2)))))
             in fst (packageResult toUrl body3 options False))"

definition cjs_import_edit ::
  "import_decl \<Rightarrow> string list \<times> MagicString \<Rightarrow> error + string list \<times> MagicString" where
  "cjs_import_edit x acc =
     (if i_path x \<notin> set (fst acc)
      then and_then
             (ms_replace (i_start x) (i_end x)
                (if i_isEmpty x then req (i_path x) @ '';''
                 else ''var '' @ js_str (i_as x) @ '' = '' @ req (i_path x) @ '';'')
                (snd acc))
             (\<lambda>body. Inr (add_key (i_path x) (fst acc), body))
      else and_then (ms_remove (i_start x) (i_next x) (snd acc)) (\<lambda>body. Inr (fst acc, body)))"

definition cjs_export_edit :: "export_decl option \<Rightarrow> MagicString \<Rightarrow> error + MagicString" where
  "cjs_export_edit declaration body =
     (case declaration of
        None \<Rightarrow> Inr body
      | Some d \<Rightarrow>
          if e_type d = ''namedFunction'' \<or> e_type d = ''namedClass''
          then and_then (ms_remove (e_start d) (e_valueStart d) body)
                 (ms_replace (e_end d) (e_end d)
                    (''\<newline>module.exports = '' @ js_str (e_name d) @ '';''))
          else ms_replace (e_start d) (e_valueStart d) ''module.exports = '' body)"

definition cjs_cjs :: "(MagicString \<Rightarrow> string) \<Rightarrow> module \<Rightarrow> options \<Rightarrow> error + result" where
  "cjs_cjs toUrl mdl options =
     (case and_then (each cjs_import_edit (m_imports mdl) ([], m_body mdl))
             (\<lambda>acc. cjs_export_edit (first_export mdl) (snd acc)) of
        Inl err \<Rightarrow> Inl err
      | Inr body2 \<Rightarrow>
          fst (packageResult toUrl (ms_trimLines (ms_prepend '''use strict';\<newline>\<newline>'' body2))
                 options False))"

definition umd_umd :: "(MagicString \<Rightarrow> string) \<Rightarrow> module \<Rightarrow> options \<Rightarrow> error + result" where
  "umd_umd toUrl mdl options =
     (case requireName options of
        Some err \<Rightarrow> Inl err
      | None \<Rightarrow>
          let hasImports = (m_imports mdl \<noteq> []);
              hasExports = (m_exports mdl \<noteq> []);
              finish = (\<lambda>intro body.
                          fst (packageResult toUrl
                                 (ms_append ''\<newline>\<newline>}));'' (ms_trimLines (ms_prepend intro (ms_indent body))))
                                 options False))
          in if \<not> hasImports \<and> \<not> hasExports
             then finish (standaloneUmdIntro options (getIndentString (m_body mdl))) (m_body mdl)
             else
               (let (importPaths, importNames) = default_import_summary (\<lambda>p. p) (m_imports mdl)
                in case and_then (remove_all_imports (m_imports mdl) (m_body mdl))
                          (transformExportDeclaration (first_export mdl)) of
                     Inl err \<Rightarrow> Inl err
                   | Inr body2 \<Rightarrow>
                       finish (defaultUmdIntro options (opt_absolutePaths options) hasExports
                                 importPaths importNames (getIndentString body2)) body2))"

section \<open>Single-file emitters, strict mode\<close>

text \<open>\<^verbatim>\<open>getImportSummary\<close>\<close>

definition getImportSummary :: "module \<Rightarrow> string list \<times> string list" where
  "getImportSummary mdl =
     (case foldl (\<lambda>acc x. summary_step (i_path x)
                            (if i_specifiers x \<noteq> [] then Some (i_name x) else None) acc)
             ([], [], [], 0) (m_imports mdl) of
        (seen, importPaths, importNames, placeholders) \<Rightarrow> (importPaths, importNames))"

definition strictMode_amd :: "(MagicString \<Rightarrow> string) \<Rightarrow> module \<Rightarrow> options \<Rightarrow> error + result" where
  "strictMode_amd toUrl mdl options =
     (let (importPaths0, importNames0) = getImportSummary mdl;
          importPaths = (if m_exports mdl \<noteq> [] then ''exports'' # importPaths0 else importPaths0);
          importNames = (if m_exports mdl \<noteq> [] then ''exports'' # importNames0 else importNames0);
          intro = replace_tabs (getIndentString (m_body mdl))
                    (''define('' @ amdName_plain options
                       @ (if importPaths \<noteq> []
                          then ''['' @ js_join '', '' (map quote (import_paths_for options importPaths))
                                 @ ''], ''
                          else [])
                       @ ''function ('' @ js_join '', '' importNames @ '') {\<newline>\<newline>''
                       @ [CHR 0x09] @ '''use strict';\<newline>\<newline>'')
      in case utils_transformBody mdl (m_body mdl)
                \<lparr>o_header = None, o_intro = Some intro, o_outro = Some ''\<newline>\<newline>});'',
                 o_evilES3SafeReExports = opt_evilES3SafeReExports options\<rparr> of
           Inl err \<Rightarrow> Inl err
         | Inr body \<Rightarrow> fst (packageResult toUrl body options False))"

definition strict_import_block :: "module \<Rightarrow> string" where
  "strict_import_block mdl =
     js_join ''\<newline>''
       (snd (foldl (\<lambda>acc x.
                      if i_path x \<in> set (fst acc) then acc
                      else (add_key (i_path x) (fst acc),
                            snd acc @ [if i_isEmpty x then req (i_path x) @ '';''
                                       else ''var '' @ i_name x @ '' = '' @ req (i_path x) @ '';'']))
               ([], []) (m_imports mdl)))"

definition strictMode_cjs :: "(MagicString \<Rightarrow> string) \<Rightarrow> module \<Rightarrow> options \<Rightarrow> error + result" where
  "strictMode_cjs toUrl mdl options =
     (case utils_transformBody mdl (m_body mdl)
             \<lparr>o_header = Some (strict_import_block mdl), o_intro = None, o_outro = None,
              o_evilES3SafeReExports = opt_evilES3SafeReExports options\<rparr> of
        Inl err \<Rightarrow> Inl err
      | Inr body \<Rightarrow>
          fst (packageResult toUrl (ms_trimLines (ms_prepend '''use strict';\<newline>\<newline>'' body))
                 options False))"

definition strictMode_umd :: "(MagicString \<Rightarrow> string) \<Rightarrow> module \<Rightarrow> options \<Rightarrow> error + result" where
  "strictMode_umd toUrl mdl options =
     (case requireName options of
        Some err \<Rightarrow> Inl err
      | None \<Rightarrow>
          let (importPaths, importNames) = getImportSummary mdl;
              hasImports = (m_imports mdl \<noteq> []);
              hasExports = (m_exports mdl \<noteq> []);
              intro = (if \<not> hasImports \<and> \<not> hasExports
                       then standaloneUmdIntro options (getIndentString (m_body mdl))
                       else strictUmdIntro options hasExports importPaths importNames []
                              (getIndentString (m_body mdl)))
          in case utils_transformBody mdl (m_body mdl)
                    \<lparr>o_header = None, o_intro = Some intro, o_outro = Some ''\<newline>\<newline>}));'',
                     o_evilES3SafeReExports = opt_evilES3SafeReExports options\<rparr> of
               Inl err \<Rightarrow> Inl err
             | Inr body \<Rightarrow> fst (packageResult toUrl body options False))"

section \<open>Bundle emitters\<close>

text \<open>
  Every bundle emitter works on \<^verbatim>\<open>bundle.body\<close> itself, so it returns the bundle with
  the body as the call leaves it.
\<close>

definition with_body :: "Bundle \<Rightarrow> (error + result) \<times> MagicString \<Rightarrow> (error + result) \<times> Bundle" where
  "with_body b r = (fst r, b\<lparr>b_body := snd r\<rparr>)"

definition defaultName_of :: "module \<Rightarrow> string option" where
  "defaultName_of entry = obj_get (m_identifierReplacements entry) ''default''"

definition quoteId :: "external_module \<Rightarrow> string" where
  "quoteId m = [CHR 0x27] @ x_id m @ [CHR 0x27]"

definition bundle_amd_intro :: "Bundle \<Rightarrow> options \<Rightarrow> string list \<Rightarrow> string list \<Rightarrow> string" where
  "bundle_amd_intro b options deps argNames =
     replace_tabs (getIndentString (b_body b))
       (''define('' @ amdName_quoted options
          @ (if deps \<noteq> [] then ''['' @ js_join '', '' deps @ ''], '' else [])
          @ ''function ('' @ js_join '', '' argNames @ '') {\<newline>\<newline>''
          @ [CHR 0x09] @ '''use strict';\<newline>\<newline>'')"

definition defaultsMode_amd ::
  "(MagicString \<Rightarrow> string) \<Rightarrow> Bundle \<Rightarrow> module \<Rightarrow> options \<Rightarrow> (error + result) \<times> Bundle" where
  "defaultsMode_amd toUrl b entry options =
     (let body1 = (if truthy (defaultName_of entry)
                   then ms_append (''\<newline>\<newline>return '' @ js_str (defaultName_of entry) @ '';'') (b_body b)
                   else b_body b);
          intro = bundle_amd_intro b options (map quoteId (b_externalModules b))
                    (map x_name (b_externalModules b));
          body2 = ms_append ''\<newline>\<newline>});'' (ms_trimLines (ms_prepend intro (ms_indent body1)))
      in with_body b (packageResult toUrl body2 options True))"

definition defaultsMode_cjs ::
  "(MagicString \<Rightarrow> string) \<Rightarrow> Bundle \<Rightarrow> module \<Rightarrow> options \<Rightarrow> (error + result) \<times> Bundle" where
  "defaultsMode_cjs toUrl b entry options =
     (let importBlock = js_join ''\<newline>''
            (map (\<lambda>x. ''var '' @ x_name x @ '' = '' @ req (x_id x) @ '';'') (b_externalModules b));
          body1 = (if importBlock \<noteq> [] then ms_prepend (importBlock @ ''\<newline>\<newline>'') (b_body b)
                   else b_body b);
          body2 = (if truthy (defaultName_of entry)
                   then ms_append (''\<newline>\<newline>module.exports = '' @ js_str (defaultName_of entry) @ '';'') body1
                   else body1);
          body3 = ms_trimLines (ms_prepend '''use strict';\<newline>\<newline>'' body2)
      in with_body b (packageResult toUrl body3 options True))"

definition defaultsMode_umd ::
  "(MagicString \<Rightarrow> string) \<Rightarrow> Bundle \<Rightarrow> module \<Rightarrow> options \<Rightarrow> (error + result) \<times> Bundle" where
  "defaultsMode_umd toUrl b entry options =
     (case requireName options of
        Some err \<Rightarrow> (Inl err, b)
      | None \<Rightarrow>
          let hasImports = (b_externalModules b \<noteq> []);
              hasExports = (m_exports entry \<noteq> []);
              finish = (\<lambda>intro body.
                          with_body b
                            (packageResult toUrl
                               (ms_append ''\<newline>\<newline>}));'' (ms_trimLines (ms_prepend intro (ms_indent body))))
                               options True))
          in if \<not> hasImports \<and> \<not> hasExports
             then finish (standaloneUmdIntro options (getIndentString (b_body b))) (b_body b)
             else
               (let body1 = (if truthy (defaultName_of entry)
                             then ms_append (''\<newline>\<newline>return '' @ js_str (defaultName_of entry) @ '';'')
                                    (b_body b)
                             else b_body b)
                in finish (defaultUmdIntro options False hasExports
                             (map x_id (b_externalModules b)) (map x_name (b_externalModules b))
                             (getIndentString body1)) body1))"

text \<open>\<^verbatim>\<open>getExportBlock\<close>\<close>

definition getExportBlock :: "module \<Rightarrow> string" where
  "getExportBlock entry = ''exports['default'] = '' @ js_str (defaultName_of entry) @ '';''"

definition builders_strictMode_amd ::
  "(MagicString \<Rightarrow> string) \<Rightarrow> Bundle \<Rightarrow> module \<Rightarrow> options \<Rightarrow> (error + result) \<times> Bundle" where
  "builders_strictMode_amd toUrl b entry options =
     (let externalDefaults = filter x_needsDefault (b_externalModules b);
          body1 = (if externalDefaults \<noteq> []
                   then ms_prepend (js_join ''\<newline>'' (map default_line externalDefaults) @ ''\<newline>\<newline>'')
                          (b_body b)
                   else b_body b);
          hasExports = (m_exports entry \<noteq> []);
          importIds = (if hasExports then [''exports''] else []) @ map x_id (b_externalModules b);
          importNames = (if hasExports then [''exports''] else []) @ map x_name (b_externalModules b);
          body2 = (if hasExports \<and> m_defaultExport entry \<noteq> None
                   then ms_append (''\<newline>\<newline>'' @ getExportBlock entry) body1 else body1);
          intro = bundle_amd_intro (b\<lparr>b_body := body2\<rparr>) options (map quote importIds) importNames;
          body3 = ms_append ''\<newline>\<newline>});'' (ms_trimLines (ms_prepend intro (ms_indent body2)))
      in with_body b (packageResult toUrl body3 options True))"

definition builders_strictMode_cjs ::
  "(MagicString \<Rightarrow> string) \<Rightarrow> Bundle \<Rightarrow> module \<Rightarrow> options \<Rightarrow> (error + result) \<times> Bundle" where
  "builders_strictMode_cjs toUrl b entry options =
     (let importBlock = js_join ''\<newline>''
            (map (\<lambda>x. ''var '' @ x_name x @ '' = '' @ req (x_id x) @ '';''
                        @ (if x_needsDefault x then ''\<newline>'' @ default_line x else []))
               (b_externalModules b));
          body1 = (if importBlock \<noteq> [] then ms_prepend (importBlock @ ''\<newline>\<newline>'') (b_body b)
                   else b_body b);
          body2 = (if m_defaultExport entry \<noteq> None
                   then ms_append (''\<newline>\<newline>'' @ getExportBlock entry) body1 else body1);
          body3 = ms_trimLines (ms_prepend '''use strict';\<newline>\<newline>'' body2)
      in with_body b (packageResult toUrl body3 options True))"

definition builders_strictMode_umd ::
  "(MagicString \<Rightarrow> string) \<Rightarrow> Bundle \<Rightarrow> module \<Rightarrow> options \<Rightarrow> (error + result) \<times> Bundle" where
  "builders_strictMode_umd toUrl b entry options =
     (case requireName options of
        Some err \<Rightarrow> (Inl err, b)
      | None \<Rightarrow>
          let hasImports = (b_externalModules b \<noteq> []);
              hasExports = (m_exports entry \<noteq> []);
              finish = (\<lambda>intro body.
                          with_body b
                            (packageResult toUrl
                               (ms_append ''\<newline>\<newline>}));'' (ms_trimLines (ms_prepend intro (ms_indent body))))
                               options True))
          in if \<not> hasImports \<and> \<not> hasExports
             then finish (standaloneUmdIntro options (getIndentString (b_body b))) (b_body b)
             else
               (let body1 = (if hasExports \<and> m_defaultExport entry \<noteq> None
                             then ms_append (''\<newline>\<newline>'' @ getExportBlock entry) (b_body b)
                             else b_body b)
                in finish (strictUmdIntro (options\<lparr>opt_absolutePaths := False\<rparr>) hasExports
                             (map x_id (b_externalModules b)) (map x_name (b_externalModules b))
                             (filter x_needsDefault (b_externalModules b))
                             (getIndentString body1)) body1))"

section \<open>The public single-file methods\<close>

text \<open>
  What the collaborators outside the repository deliver for a source text: the text,
  the parser's tree, the import and export declarations the extractor finds in it, the
  ranges of the \<^verbatim>\<open>sourceMappingURL\<close> comments the parser reported, and the policy
  of the buffer library by which \<^verbatim>\<open>new MagicString( source )\<close> will refuse calls.
  A source that does not parse is the parser's error.
\<close>

record parsed =
  p_source :: string
  p_tree :: node
  p_imports :: "import_decl list"
  p_exports :: "export_decl list"
  p_mapComments :: "(nat \<times> nat) list"
  p_refuses :: "string \<Rightarrow> edit list \<Rightarrow> edit \<Rightarrow> string option"

text \<open>\<^verbatim>\<open>disallowConflictingImports\<close>; \<open>usedNames\<close> are the own keys of its table.\<close>

definition import_names_used :: "import_decl \<Rightarrow> string list" where
  "import_names_used x =
     (if truthy (i_as x) then [js_str (i_as x)] else map s_as (i_specifiers x))"

fun first_duplicate :: "string list \<Rightarrow> string list \<Rightarrow> string option" where
  "first_duplicate usedNames [] = None"
| "first_duplicate usedNames (n # ns) =
     (if n \<in> set usedNames then Some n else first_duplicate (add_key n usedNames) ns)"

definition disallowConflictingImports :: "import_decl list \<Rightarrow> error option" where
  "disallowConflictingImports imports =
     (case first_duplicate [] (concat (map import_names_used imports)) of
        None \<Rightarrow> None
      | Some name \<Rightarrow> Some (SyntaxError (''Duplicated import ('' @ [CHR 0x27] @ name @ [CHR 0x27] @ '')'')))"

definition unannotated :: "node \<Rightarrow> ast" where
  "unannotated root =
     \<lparr>ast_root = root, ast_scope = [], ast_blockScope = [], ast_topLevelNames = [],
      ast_topLevelFunctionNames = [], ast_declared = []\<rparr>"

definition first_default :: "export_decl list \<Rightarrow> export_decl option" where
  "first_default exports = find e_isDefault exports"

section \<open>Names for the imports of a single file (\<^verbatim>\<open>determineImportNames\<close>)\<close>

definition reserved :: "string list" where
  "reserved =
     [''break'', ''case'', ''class'', ''catch'', ''const'', ''continue'', ''debugger'',
      ''default'', ''delete'', ''do'', ''else'', ''export'', ''extends'', ''finally'', ''for'',
      ''function'', ''if'', ''import'', ''in'', ''instanceof'', ''let'', ''new'', ''return'',
      ''super'', ''switch'', ''this'', ''throw'', ''try'', ''typeof'', ''var'', ''void'',
      ''while'', ''with'', ''yield'']"

text \<open>
  \<^verbatim>\<open>sanitize\<close>. For the empty name \<^verbatim>\<open>name[0]\<close> is \<^verbatim>\<open>undefined\<close>, which the test
  reads as the text \<^verbatim>\<open>undefined\<close>: all letters, so nothing is put in front.
\<close>

definition sanitize :: "string \<Rightarrow> string" where
  "sanitize name =
     (let name1 = map (\<lambda>c. if is_letter c \<or> is_digit c \<or> c = CHR ''_'' \<or> c = CHR ''$'' then c
                            else CHR ''_'') name;
          name2 = (case name1 of
                     [] \<Rightarrow> name1
                   | c # _ \<Rightarrow> if is_letter c \<or> c = CHR ''_'' \<or> c = CHR ''$'' then name1
                              else CHR ''_'' # name1);
          name3 = (if name2 \<in> set reserved then CHR ''_'' # name2 else name2)
      in name3)"

text \<open>
  \<^verbatim>\<open>sanitize( parts.slice( i ).join( '__' ) )\<close> for \<open>i\<close> from the last index down to
  0. A path always splits into at least one part, so the first of these is the
  sanitized last part.
\<close>

definition candidates :: "string list \<Rightarrow> string list" where
  "candidates parts =
     map (\<lambda>i. sanitize (js_join ''__'' (drop i parts))) (rev [0..<length parts - 1])"

definition longest :: "string list \<Rightarrow> nat" where
  "longest names = foldr (\<lambda>n m. max (length n) m) names 0"

lemma longest_bound: "n \<in> set names \<Longrightarrow> length n \<le> longest names"
  unfolding longest_def by (induction names) auto

text \<open>
  The loop \<^verbatim>\<open>do { ... prefix += '_' } while ( !name )\<close>: one round takes the first
  candidate that, with the prefix in front, is no own key of \<^verbatim>\<open>usedNames\<close>; an empty
  name is falsy and the loop goes on. The candidates are \<open>c # cs\<close>.
\<close>

function name_search :: "string list \<Rightarrow> string \<Rightarrow> string \<Rightarrow> string list \<Rightarrow> string" where
  "name_search usedNames prefix c cs =
     (case find (\<lambda>candidate. candidate \<notin> set usedNames) (map ((@) prefix) (c # cs)) of
        Some name \<Rightarrow> if name \<noteq> [] then name else name_search usedNames (prefix @ ''_'') c cs
      | None \<Rightarrow> name_search usedNames (prefix @ ''_'') c cs)"
  by pat_completeness auto
termination
proof (relation "measure (\<lambda>(usedNames, prefix, c, cs). Suc (longest usedNames) - length prefix)",
       goal_cases)
  case 1
  show ?case by simp
next
  case (2 usedNames prefix c cs)
  then have "\<forall>x \<in> set (map ((@) prefix) (c # cs)). x \<in> set usedNames"
    unfolding find_None_iff by blast
  then have "prefix @ c \<in> set usedNames" by simp
  from longest_bound [OF this] show ?case by simp
next
  case (3 usedNames prefix c cs name)
  then have "name \<in> set (map ((@) prefix) (c # cs))"
    unfolding find_Some_iff by (metis nth_mem)
  with 3 have "prefix = []" by auto
  then show ?case by simp
qed

text \<open>
  The first loop of \<^verbatim>\<open>determineImportNames\<close> for one import; its state is
  \<^verbatim>\<open>( usedNames, nameById )\<close> and the imports named so far. \<open>userFn\<close> is
  \<^verbatim>\<open>options.getModuleName\<close>, whose result counts when it is a non-empty string.
\<close>

definition name_import ::
  "(string \<Rightarrow> string option) option \<Rightarrow> import_decl
     \<Rightarrow> string list \<times> (string \<times> string) list \<times> import_decl list
     \<Rightarrow> error + string list \<times> (string \<times> string) list \<times> import_decl list" where
  "name_import userFn x acc =
     (case acc of (usedNames, nameById, named) \<Rightarrow>
        let moduleId = i_path x in
        (case obj_get nameById moduleId of
           Some name \<Rightarrow> Inr (usedNames, nameById, named @ [x\<lparr>i_name := name\<rparr>])
         | None \<Rightarrow>
             and_then
               (case (case userFn of None \<Rightarrow> None | Some f \<Rightarrow> f moduleId) of
                  Some given \<Rightarrow>
                    if given \<noteq> [] then
                      (if sanitize given \<in> set usedNames
                       then Inl (Error (''Naming collision: module '' @ moduleId
                                          @ '' cannot be called '' @ sanitize given))
                       else Inr (sanitize given))
                    else Inr (name_search usedNames [] (sanitize (last (splitPath moduleId)))
                                (candidates (splitPath moduleId)))
                | None \<Rightarrow> Inr (name_search usedNames [] (sanitize (last (splitPath moduleId)))
                                (candidates (splitPath moduleId))))
               (\<lambda>name. Inr (add_key name usedNames, obj_set moduleId name nameById,
                             named @ [x\<lparr>i_name := name\<rparr>]))))"

text \<open>The second and the third loop: the inferred names of default imports.\<close>

definition inferredNames :: "string list \<Rightarrow> import_decl list \<Rightarrow> (string \<times> string) list" where
  "inferredNames usedNames imports =
     foldl (\<lambda>inferred x. if truthy (i_as x) \<and> js_str (i_as x) \<notin> set usedNames
                           then obj_set (i_path x) (js_str (i_as x)) inferred else inferred)
       [] imports"

definition determineImportNames ::
  "import_decl list \<Rightarrow> (string \<Rightarrow> string option) option \<Rightarrow> string list
     \<Rightarrow> error + import_decl list" where
  "determineImportNames imports userFn usedNames =
     and_then (each (name_import userFn) imports (usedNames, [], []))
       (\<lambda>acc. case acc of (usedNames1, nameById, named) \<Rightarrow>
          Inr (map (\<lambda>x. case obj_get (inferredNames usedNames1 named) (i_path x) of
                           Some name \<Rightarrow> x\<lparr>i_name := name\<rparr>
                         | None \<Rightarrow> x)
                 named))"

section \<open>\<^verbatim>\<open>getStandaloneModule\<close>\<close>

text \<open>
  The module of one source text: the buffer without the \<^verbatim>\<open>sourceMappingURL\<close>
  comments, the declarations (the extractor refuses a second default export), the check
  for duplicated imports, in strict mode the annotation of the tree, and the names of
  the imports, which avoid the declared and the unscoped names in strict mode.
\<close>

definition getStandaloneModule ::
  "error + parsed \<Rightarrow> (string \<Rightarrow> string option) option \<Rightarrow> bool \<Rightarrow> error + module" where
  "getStandaloneModule src getModuleName strict =
     (case src of
        Inl err \<Rightarrow> Inl err
      | Inr p \<Rightarrow>
          and_then (each (\<lambda>r. ms_remove (fst r) (snd r)) (p_mapComments p)
                      (MagicString_new (p_refuses p) (p_source p)))
            (\<lambda>body.
               if 1 < length (filter e_isDefault (p_exports p))
               then Inl (Error ''Duplicate default exports'')
               else
                 (case disallowConflictingImports (p_imports p) of
                    Some err \<Rightarrow> Inl err
                  | None \<Rightarrow>
                      let mk = (\<lambda>a imports.
                                  \<lparr>m_id = [], m_relativePath = [], m_path = [], m_name = [],
                                   m_body = body, m_ast = a,
                                   m_imports = imports, m_exports = p_exports p,
                                   m_defaultExport = first_default (p_exports p),
                                   m_identifierReplacements = [], m_doesExport = [],
                                   m_exportsNamespace = False\<rparr>)
                      in and_then
                           (if strict
                            then and_then (annotateAst (p_tree p))
                                   (\<lambda>a. Inr (a, foldl (\<lambda>ks k. add_key k ks) []
                                                  (ast_declared a
                                                     @ getUnscopedNames (mk a (p_imports p)))))
                            else Inr (unannotated (p_tree p), []))
                           (\<lambda>(a, conflicts).
                              and_then (determineImportNames (p_imports p) getModuleName conflicts)
                                (\<lambda>imports. Inr (mk a imports))))))"

definition hasNamedImports :: "module \<Rightarrow> bool" where
  "hasNamedImports mdl = (\<exists>x \<in> set (m_imports mdl). i_isNamed x)"

definition hasNamedExports :: "module \<Rightarrow> bool" where
  "hasNamedExports mdl = (\<exists>x \<in> set (m_exports mdl). \<not> e_isDefault x)"

text \<open>
  The process-wide flag \<^verbatim>\<open>alreadyWarned\<close> and the console are the only state that
  outlives a call of a public method.
\<close>

record global =
  g_alreadyWarned :: bool
  g_console :: "string list"

definition deprecateMessage :: string where
  "deprecateMessage = ''options.defaultOnly has been deprecated, and is now standard behaviour. To use named imports/exports, pass `strict: true`.''"

definition warn_defaultOnly :: "options \<Rightarrow> global \<Rightarrow> global" where
  "warn_defaultOnly options g =
     (if opt_defaultOnly options \<and> \<not> g_alreadyWarned g
      then g\<lparr>g_alreadyWarned := True, g_console := g_console g @ [deprecateMessage]\<rparr>
      else g)"

definition moduleBuilders ::
  "bool \<Rightarrow> format \<Rightarrow> (MagicString \<Rightarrow> string) \<Rightarrow> module \<Rightarrow> options \<Rightarrow> error + result" where
  "moduleBuilders strict fmt =
     (if strict
      then (case fmt of amd \<Rightarrow> strictMode_amd | cjs \<Rightarrow> strictMode_cjs | umd \<Rightarrow> strictMode_umd)
      else (case fmt of amd \<Rightarrow> amd_amd | cjs \<Rightarrow> cjs_cjs | umd \<Rightarrow> umd_umd))"

definition transpileMethod ::
  "format \<Rightarrow> (MagicString \<Rightarrow> string) \<Rightarrow> error + parsed \<Rightarrow> options \<Rightarrow> global
     \<Rightarrow> (error + result) \<times> global" where
  "transpileMethod fmt toUrl source options g =
     (case getStandaloneModule source (opt_getModuleName options) (opt_strict options) of
        Inl err \<Rightarrow> (Inl err, g)
      | Inr mdl \<Rightarrow>
          let g1 = warn_defaultOnly options g
          in if opt_absolutePaths options \<and> \<not> truthy (opt_amdName options)
             then (Inl (Error ''You must specify an `amdName` in order to use the `absolutePaths` option''), g1)
             else if \<not> opt_strict options \<and> (hasNamedImports mdl \<or> hasNamedExports mdl)
             then (Inl (Error ''You must be in strict mode (pass `strict: true`) to use named imports or exports''), g1)
             else (moduleBuilders (opt_strict options) fmt toUrl mdl options, g1))"

section \<open>The public methods of a loaded bundle\<close>

definition bundleBuilders ::
  "bool \<Rightarrow> format \<Rightarrow> (MagicString \<Rightarrow> string) \<Rightarrow> Bundle \<Rightarrow> module \<Rightarrow> options
     \<Rightarrow> (error + result) \<times> Bundle" where
  "bundleBuilders strict fmt =
     (if strict
      then (case fmt of amd \<Rightarrow> builders_strictMode_amd | cjs \<Rightarrow> builders_strictMode_cjs
                      | umd \<Rightarrow> builders_strictMode_umd)
      else (case fmt of amd \<Rightarrow> defaultsMode_amd | cjs \<Rightarrow> defaultsMode_cjs | umd \<Rightarrow> defaultsMode_umd))"

definition has_named_external_import :: "Bundle \<Rightarrow> bool" where
  "has_named_external_import b =
     (\<exists>mdl \<in> set (b_modules b). \<exists>x \<in> set (m_imports mdl).
        externalModuleLookup b (i_id x) \<noteq> None \<and> \<not> i_isDefault x \<and> \<not> i_isBatch x)"

text \<open>
  \<^verbatim>\<open>transpile( format, options )\<close> of the object \<^verbatim>\<open>esperanto.bundle\<close> resolves to: the
  three emit methods close over the one loaded bundle, which the call may change.
\<close>

definition bundle_transpile ::
  "format \<Rightarrow> (MagicString \<Rightarrow> string) \<Rightarrow> Bundle \<Rightarrow> options \<Rightarrow> global
     \<Rightarrow> (error + result) \<times> Bundle \<times> global" where
  "bundle_transpile fmt toUrl b options g =
     (let g1 = warn_defaultOnly options g
      in case entryModule b of
           None \<Rightarrow> (Inl (TypeError ''Cannot read property 'exports' of undefined''), b, g1)
         | Some entry \<Rightarrow>
             if \<not> opt_strict options \<and> hasNamedExports entry
             then (Inl (Error ''Entry module can only have named exports in strict mode (pass `strict: true`)''), b, g1)
             else if \<not> opt_strict options \<and> has_named_external_import b
             then (Inl (Error ''You can only have named external imports in strict mode (pass `strict: true`)''), b, g1)
             else (case bundleBuilders (opt_strict options) fmt toUrl b entry options of
                     (r, b1) \<Rightarrow> (r, b1, g1)))"

section \<open>Loading a bundle\<close>

text \<open>
  What \<^verbatim>\<open>moduleLookup[ id ]\<close> may be when the table is read without asking
  \<^verbatim>\<open>hasOwnProperty\<close>: a module, \<^verbatim>\<open>undefined\<close> or another falsy value, or a truthy
  value that is no module, which the table inherits. Of such a value \<open>v\<close> the walk
  below uses the key \<^verbatim>\<open>String( v.id )\<close> and the \<^verbatim>\<open>TypeError\<close> that
  \<^verbatim>\<open>v.imports.forEach( ... )\<close> is.
\<close>

datatype jsval = Undefined | AModule module | Foreign string string

text \<open>
  \<^verbatim>\<open>sortModules\<close>. \<^verbatim>\<open>visit\<close> recurses through the imports; \<open>seen\<close> are the own keys
  of the table of that name (the id \<^verbatim>\<open>__proto__\<close> is never one of them). The recursion
  need not end; the model gives it fuel and returns \<open>None\<close> when the fuel runs out.
  The state is \<^verbatim>\<open>( seen, ordered )\<close>.
\<close>

fun visit ::
  "nat \<Rightarrow> (string \<Rightarrow> jsval) \<Rightarrow> jsval \<Rightarrow> string list \<times> module list
     \<Rightarrow> (error + string list \<times> module list) option"
  and visit_imports ::
  "nat \<Rightarrow> (string \<Rightarrow> jsval) \<Rightarrow> import_decl list \<Rightarrow> string list \<times> module list
     \<Rightarrow> (error + string list \<times> module list) option" where
  "visit 0 lookup v st = None"
| "visit (Suc fuel) lookup Undefined st = Some (Inr st)"
| "visit (Suc fuel) lookup (Foreign idKey msg) (seen, ordered) =
     (if idKey \<in> set seen then Some (Inr (seen, ordered)) else Some (Inl (TypeError msg)))"
| "visit (Suc fuel) lookup (AModule mdl) (seen, ordered) =
     (if m_id mdl \<in> set seen then Some (Inr (seen, ordered))
      else
        (case visit_imports fuel lookup (m_imports mdl) (add_key (m_id mdl) seen, ordered) of
           None \<Rightarrow> None
         | Some (Inl err) \<Rightarrow> Some (Inl err)
         | Some (Inr (seen1, ordered1)) \<Rightarrow> Some (Inr (seen1, ordered1 @ [mdl]))))"
| "visit_imports fuel lookup [] st = Some (Inr st)"
| "visit_imports fuel lookup (x # xs) st =
     (case visit fuel lookup (lookup (i_id x)) st of
        None \<Rightarrow> None
      | Some (Inl err) \<Rightarrow> Some (Inl err)
      | Some (Inr st1) \<Rightarrow> visit_imports fuel lookup xs st1)"

definition sortModules ::
  "nat \<Rightarrow> jsval \<Rightarrow> (string \<Rightarrow> jsval) \<Rightarrow> (error + module list) option" where
  "sortModules fuel entry lookup = map_option (map_sum id snd) (visit fuel lookup entry ([], []))"

text \<open>
  The file system collaborator: \<^verbatim>\<open>sander.stat\<close> fulfils or rejects with an error
  that carries a code; \<^verbatim>\<open>sander.readFile\<close> rejects or delivers a text, for which the
  model has what the parser and the extractor make of it. \<^verbatim>\<open>path.resolve\<close> of the
  base (which ends in a slash) and a relative name is their concatenation.
\<close>

record filesystem =
  fs_stat :: "string \<Rightarrow> error option"
  fs_readFile :: "string \<Rightarrow> error + (error + parsed)"

definition tryPath :: "filesystem \<Rightarrow> string \<Rightarrow> error + string" where
  "tryPath fs path = (case fs_stat fs path of None \<Rightarrow> Inr path | Some err \<Rightarrow> Inl err)"

definition resolvePath ::
  "filesystem \<Rightarrow> string \<Rightarrow> string \<Rightarrow> string option
     \<Rightarrow> (string \<Rightarrow> string option \<Rightarrow> error + string) option \<Rightarrow> error + string" where
  "resolvePath fs base moduleId importerPath resolver =
     (case tryPath fs (base @ moduleId @ ''.js'') of
        Inr path \<Rightarrow> Inr path
      | Inl _ \<Rightarrow>
          (case tryPath fs (base @ moduleId @ ''/index.js'') of
             Inr path \<Rightarrow> Inr path
           | Inl err \<Rightarrow>
               (case resolver of
                  Some r \<Rightarrow> r moduleId importerPath
                | None \<Rightarrow> Inl err)))"

text \<open>
  \<^verbatim>\<open>getModule\<close>: the module of a read file. A parse error is rethrown; the scope
  annotator and the checks of the declarations may throw.
\<close>

definition doesExport_of :: "export_decl list \<Rightarrow> error + string list" where
  "doesExport_of exports =
     foldl (\<lambda>acc x.
              case acc of
                Inl err \<Rightarrow> Inl err
              | Inr names \<Rightarrow>
                  if e_isDefault x then Inr (add_key ''default'' names)
                  else if truthy (e_name x) then Inr (add_key (js_str (e_name x)) names)
                  else (case e_specifiers x of
                          Some ss \<Rightarrow> Inr (foldl (\<lambda>ns s. add_key s ns) names ss)
                        | None \<Rightarrow> Inl (Error ''Unexpected export type'')))
       (Inr []) exports"

definition getModule :: "string \<Rightarrow> string \<Rightarrow> string \<Rightarrow> error + parsed \<Rightarrow> error + module" where
  "getModule moduleId relativePath modulePath src =
     (case src of
        Inl err \<Rightarrow> Inl err
      | Inr p \<Rightarrow>
          (case annotateAst (p_tree p) of
             Inl err \<Rightarrow> Inl err
           | Inr a \<Rightarrow>
               if 1 < length (filter e_isDefault (p_exports p)) then Inl (Error ''Duplicate default exports'')
               else
                 (case disallowConflictingImports (p_imports p) of
                    Some err \<Rightarrow> Inl err
                  | None \<Rightarrow>
                      (case doesExport_of (p_exports p) of
                         Inl err \<Rightarrow> Inl err
                       | Inr names \<Rightarrow>
                           Inr \<lparr>m_id = moduleId, m_relativePath = relativePath, m_path = modulePath,
                                m_name = [], m_body = MagicString_new (p_refuses p) (p_source p),
                                m_ast = a, m_imports = p_imports p, m_exports = p_exports p,
                                m_defaultExport = first_default (p_exports p),
                                m_identifierReplacements = [], m_doesExport = names,
                                m_exportsNamespace = False\<rparr>))))"

text \<open>
  The state of \<^verbatim>\<open>getBundle\<close>: \<^verbatim>\<open>modules\<close> in loading order; the own keys of
  \<^verbatim>\<open>moduleLookup\<close> with their modules, and the module assigned under the key
  \<^verbatim>\<open>__proto__\<close>, which becomes the prototype of the table instead of an own key; the
  own keys of \<^verbatim>\<open>promiseByPath\<close>; \<^verbatim>\<open>externalModules\<close>, whose ids other than
  \<^verbatim>\<open>__proto__\<close> are the own keys of \<^verbatim>\<open>externalModuleLookup\<close>.
\<close>

record lstate =
  l_modules :: "module list"
  l_moduleLookup :: "(string \<times> module) list"
  l_lookupProto :: "module option"
  l_promiseByPath :: "string list"
  l_externalModules :: "external_module list"

text \<open>\<^verbatim>\<open>moduleLookup[ moduleId ] = module\<close>\<close>

definition store_module :: "module \<Rightarrow> lstate \<Rightarrow> lstate" where
  "store_module mdl st =
     (if m_id mdl = proto_key then st\<lparr>l_lookupProto := Some mdl\<rparr>
      else st\<lparr>l_moduleLookup := alist_set (m_id mdl) mdl (l_moduleLookup st)\<rparr>)"

definition no_forEach :: string where
  "no_forEach = ''Cannot read property 'forEach' of undefined''"

text \<open>
  A property of a module object as the walk of \<^verbatim>\<open>sortModules\<close> sees it. The object
  has \<^verbatim>\<open>source\<close>, \<^verbatim>\<open>id\<close>, \<^verbatim>\<open>relativePath\<close>, \<^verbatim>\<open>path\<close>, \<^verbatim>\<open>body\<close>, \<^verbatim>\<open>ast\<close>,
  \<^verbatim>\<open>imports\<close>, \<^verbatim>\<open>exports\<close>, \<^verbatim>\<open>identifierReplacements\<close>, \<^verbatim>\<open>doesExport\<close> and, if
  the module has a default export, \<^verbatim>\<open>defaultExport\<close>; a text is truthy unless it is
  empty. None of these values has an \<^verbatim>\<open>id\<close> or \<^verbatim>\<open>imports\<close> of its own but the table
  \<^verbatim>\<open>doesExport\<close>, which has them if the module exports these names.
\<close>

definition module_property :: "module \<Rightarrow> string \<Rightarrow> jsval" where
  "module_property mdl k =
     (if k = ''source'' then (if ms_original (m_body mdl) \<noteq> [] then Foreign ''undefined'' no_forEach
                              else Undefined)
      else if k = ''id'' then (if m_id mdl \<noteq> [] then Foreign ''undefined'' no_forEach else Undefined)
      else if k = ''relativePath''
      then (if m_relativePath mdl \<noteq> [] then Foreign ''undefined'' no_forEach else Undefined)
      else if k = ''path'' then (if m_path mdl \<noteq> [] then Foreign ''undefined'' no_forEach else Undefined)
      else if k \<in> set [''body'', ''ast'', ''imports'', ''exports'', ''identifierReplacements'']
      then Foreign ''undefined'' no_forEach
      else if k = ''doesExport''
      then Foreign (if ''id'' \<in> set (m_doesExport mdl) then ''true'' else ''undefined'')
             (if ''imports'' \<in> set (m_doesExport mdl) then ''undefined is not a function''
              else no_forEach)
      else if k = ''defaultExport'' \<and> m_defaultExport mdl \<noteq> None
      then Foreign ''undefined'' no_forEach
      else if k \<in> set inherited_keys then Foreign ''undefined'' no_forEach
      else Undefined)"

text \<open>\<^verbatim>\<open>moduleLookup[ id ]\<close>, read without the guard.\<close>

definition read_moduleLookup :: "lstate \<Rightarrow> string \<Rightarrow> jsval" where
  "read_moduleLookup st k =
     (case map_of (l_moduleLookup st) k of
        Some mdl \<Rightarrow> AModule mdl
      | None \<Rightarrow>
          (case l_lookupProto st of
             Some proto \<Rightarrow> if k = proto_key then AModule proto else module_property proto k
           | None \<Rightarrow> if k \<in> set inherited_keys then Foreign ''undefined'' no_forEach
                     else Undefined))"

record bundle_options =
  bo_entry :: string
  bo_base :: string
  bo_skip :: "string list"
  bo_resolvePath :: "(string \<Rightarrow> string option \<Rightarrow> error + string) option"

definition ENOENT :: string where
  "ENOENT = ''ENOENT''"

text \<open>
  \<^verbatim>\<open>handleError\<close>, the rejection handler of an import's \<^verbatim>\<open>resolvePath\<close>. The id
  \<^verbatim>\<open>__proto__\<close> never becomes an own key of \<^verbatim>\<open>externalModuleLookup\<close>, so it is pushed
  every time.
\<close>

definition handleError :: "string \<Rightarrow> error \<Rightarrow> lstate \<Rightarrow> error + lstate" where
  "handleError importId err st =
     (if error_code err = Some ENOENT
      then (if importId \<noteq> proto_key \<and> importId \<in> x_id ` set (l_externalModules st)
            then Inr st
            else Inr (st\<lparr>l_externalModules := l_externalModules st
                          @ [\<lparr>x_id = importId, x_name = [], x_needsDefault = False, x_needsNamed = False\<rparr>]\<rparr>))
      else Inl err)"

text \<open>
  The imports of a freshly read module get their ids and the self-import check at
  once, before any of them is resolved.
\<close>

definition resolve_import_ids :: "string \<Rightarrow> string \<Rightarrow> import_decl list \<Rightarrow> error + import_decl list" where
  "resolve_import_ids moduleId relativePath imports =
     (let imports1 = map (\<lambda>x. x\<lparr>i_id := resolveId (i_path x) relativePath\<rparr>) imports
      in if \<exists>x \<in> set imports1. i_id x = moduleId
         then Inl (Error (''A module ('' @ moduleId @ '') cannot import itself''))
         else Inr imports1)"

text \<open>
  \<^verbatim>\<open>fetchModule\<close>. The reads of the source run in parallel; the model runs them one
  after the other, each import's whole subtree before the next import, which is one of
  the orders the parallel reads can complete in. The recursion ends when every path has
  its promise; the model gives it fuel and returns \<open>None\<close> when the fuel runs out.
  \<open>relativePath\<close> is the path of the file relative to the base.
\<close>

fun fetchModule ::
  "nat \<Rightarrow> filesystem \<Rightarrow> bundle_options \<Rightarrow> string \<Rightarrow> string \<Rightarrow> lstate \<Rightarrow> (error + lstate) option"
  and fetch_imports ::
  "nat \<Rightarrow> filesystem \<Rightarrow> bundle_options \<Rightarrow> string \<Rightarrow> import_decl list \<Rightarrow> lstate
     \<Rightarrow> (error + lstate) option" where
  "fetchModule 0 fs opts moduleId modulePath st = None"
| "fetchModule (Suc fuel) fs opts moduleId modulePath st =
     (if modulePath \<in> set (l_promiseByPath st) then Some (Inr st)
      else
        (case fs_readFile fs modulePath of
           Inl err \<Rightarrow> Some (Inl err)
         | Inr src \<Rightarrow>
             (case getModule moduleId (drop (length (bo_base opts)) modulePath) modulePath src of
                Inl err \<Rightarrow> Some (Inl err)
              | Inr mdl0 \<Rightarrow>
                  (case resolve_import_ids moduleId (m_relativePath mdl0) (m_imports mdl0) of
                     Inl err \<Rightarrow> Some (Inl err)
                   | Inr imports \<Rightarrow>
                       fetch_imports fuel fs opts modulePath imports
                         (store_module (mdl0\<lparr>m_imports := imports\<rparr>)
                            (st\<lparr>l_promiseByPath := add_key modulePath (l_promiseByPath st),
                                l_modules := l_modules st @ [mdl0\<lparr>m_imports := imports\<rparr>]\<rparr>))))))"
| "fetch_imports fuel fs opts importerPath [] st = Some (Inr st)"
| "fetch_imports fuel fs opts importerPath (x # xs) st =
     (if i_id x \<in> set (bo_skip opts) then fetch_imports fuel fs opts importerPath xs st
      else
        (case resolvePath fs (bo_base opts) (i_id x) (Some importerPath) (bo_resolvePath opts) of
           Inl err \<Rightarrow>
             (case handleError (i_id x) err st of
                Inl err' \<Rightarrow> Some (Inl err')
              | Inr st1 \<Rightarrow> fetch_imports fuel fs opts importerPath xs st1)
         | Inr modulePath \<Rightarrow>
             (case fetchModule fuel fs opts (i_id x) modulePath st of
                None \<Rightarrow> None
              | Some (Inl err) \<Rightarrow> Some (Inl err)
              | Some (Inr st1) \<Rightarrow> fetch_imports fuel fs opts importerPath xs st1)))"

text \<open>
  \<^verbatim>\<open>getBundle\<close> up to the sorted list of modules; \<open>bo_entry\<close> is the entry after the
  extension and the base have been cut off. The rejection handler of the entry's
  \<^verbatim>\<open>resolvePath\<close> sees no failure of what follows it.
\<close>

record loaded =
  ld_modules :: "module list"
  ld_loadOrder :: "module list"
  ld_externalModules :: "external_module list"
  ld_chains :: "(string \<times> string) list"

definition getBundle :: "nat \<Rightarrow> filesystem \<Rightarrow> bundle_options \<Rightarrow> (error + loaded) option" where
  "getBundle fuel fs opts =
     (case resolvePath fs (bo_base opts) (bo_entry opts) None None of
        Inl err \<Rightarrow>
          if error_code err = Some ENOENT
          then Some (Inl (Error (''Could not find entry module ('' @ bo_entry opts @ '')'')))
          else Some (Inl err)
      | Inr entryPath \<Rightarrow>
          (case fetchModule fuel fs opts (bo_entry opts) entryPath
                  \<lparr>l_modules = [], l_moduleLookup = [], l_lookupProto = None,
                   l_promiseByPath = [], l_externalModules = []\<rparr> of
             None \<Rightarrow> None
           | Some (Inl err) \<Rightarrow> Some (Inl err)
           | Some (Inr st) \<Rightarrow>
               (case sortModules fuel (read_moduleLookup st (bo_entry opts)) (read_moduleLookup st) of
                  None \<Rightarrow> None
                | Some (Inl err) \<Rightarrow> Some (Inl err)
                | Some (Inr modules) \<Rightarrow>
                    Some (Inr \<lparr>ld_modules = modules, ld_loadOrder = l_modules st,
                               ld_externalModules = l_externalModules st,
                               ld_chains = resolveChains modules\<rparr>))))"

section \<open>Example inputs\<close>

definition no_options :: options where
  "no_options =
     \<lparr>opt_strict = False, opt_name = None, opt_amdName = None, opt_absolutePaths = False,
      opt_sourceMap = None, opt_sourceMapFile = None, opt_sourceMapSource = None,
      opt_banner = None, opt_footer = None, opt_evilES3SafeReExports = False,
      opt_defaultOnly = False, opt_getModuleName = None\<rparr>"

definition fresh_global :: global where
  "fresh_global = \<lparr>g_alreadyWarned = False, g_console = []\<rparr>"

definition no_url :: "MagicString \<Rightarrow> string" where
  "no_url body = []"

text \<open>An export declaration of a variable \<open>name\<close>: \<^verbatim>\<open>export var name = ...;\<close>\<close>

definition var_export :: "string \<Rightarrow> nat \<Rightarrow> nat \<Rightarrow> nat \<Rightarrow> nat \<Rightarrow> string \<Rightarrow> export_decl" where
  "var_export name s e nxt valueStart val =
     \<lparr>e_isDefault = False, e_start = s, e_end = e, e_next = nxt, e_valueStart = valueStart,
      e_type = ''varDeclaration'', e_name = Some name, e_hasDeclaration = True,
      e_value = val, e_specifiers = None, e_declName = None, e_isFinal = False\<rparr>"

text \<open>\<^verbatim>\<open>export var x = 1;\<close>\<close>

definition one_export_source :: parsed where
  "one_export_source =
     \<lparr>p_source = ''export var x = 1;'',
      p_tree = Node 0 17 False (Other ''Program''
        [Node 0 17 False (Other ''ExportNamedDeclaration''
           [Node 7 17 False (VariableDeclaration ''var''
              [Node 11 16 False (VariableDeclarator (Node 11 12 False (Identifier ''x''))
                  (Some (Node 15 16 False (Other ''Literal'' []))))])])]),
      p_imports = [],
      p_exports = [var_export ''x'' 0 17 17 7 ''var x = 1;''],
      p_mapComments = [], p_refuses = accepts_all\<rparr>"

text \<open>
  A loaded bundle of one module \<^verbatim>\<open>main.js\<close> with the text \<^verbatim>\<open>var a = 1;\<close>: no imports,
  no exports, the body of the bundle is the module's text.
\<close>

definition main_module :: module where
  "main_module =
     \<lparr>m_id = ''main'', m_relativePath = [], m_path = [], m_name = ''main'', m_body = MagicString_new accepts_all ''var a = 1;'',
      m_ast = \<lparr>ast_root = Node 0 10 False (Other ''Program''
                 [Node 0 10 False (VariableDeclaration ''var''
                    [Node 4 9 False (VariableDeclarator (Node 4 5 False (Identifier ''a''))
                        (Some (Node 8 9 False (Other ''Literal'' []))))])]),
               ast_scope = [Some ''a''], ast_blockScope = [], ast_topLevelNames = [Some ''a''],
               ast_topLevelFunctionNames = [], ast_declared = [''a'']\<rparr>,
      m_imports = [], m_exports = [], m_defaultExport = None,
      m_identifierReplacements = [(''a'', ''a'')], m_doesExport = [],
      m_exportsNamespace = False\<rparr>"

definition main_bundle :: Bundle where
  "main_bundle =
     \<lparr>b_entry = ''main'', b_modules = [main_module], b_externalModules = [], b_chains = [],
      b_exports = [], b_body = MagicString_new accepts_all ''var a = 1;''\<rparr>"





definition strict_options :: options where
  "strict_options = no_options\<lparr>opt_strict := True\<rparr>"

text \<open>The declaration \<^verbatim>\<open>import { x } from 'a';\<close> at the start of a source.\<close>

definition import_x :: import_decl where
  "import_x =
     \<lparr>i_id = [], i_start = 0, i_end = 22, i_next = 23, i_passthrough = False, i_path = ''a'',
      i_specifiers = [\<lparr>s_isBatch = False, s_isDefault = False, s_name = ''x'', s_as = ''x''\<rparr>],
      i_name = ''a''\<rparr>"

definition import_x_node :: node where
  "import_x_node =
     Node 0 22 False (ImportDeclaration
       [Node 9 10 False (Other ''ImportSpecifier''
          [Node 9 10 False (Identifier ''x''), Node 9 10 False (Identifier ''x'')]),
        Node 18 21 False (Other ''Literal'' [])])"

text \<open>\<^verbatim>\<open>import { x } from 'a'; x = 1;\<close>\<close>

definition reassign_source :: parsed where
  "reassign_source =
     \<lparr>p_source = ''import { x } from 'a'; x = 1;'',
      p_tree = Node 0 29 False (Other ''Program''
        [import_x_node,
         Node 23 29 False (Other ''ExpressionStatement''
           [Node 23 28 False (AssignmentExpression ''=''
              (Node 23 24 False (Identifier ''x'')) (Node 27 28 False (Other ''Literal'' [])))])]),
      p_imports = [import_x],
      p_exports = [],
      p_mapComments = [], p_refuses = accepts_all\<rparr>"

text \<open>
  \<^verbatim>\<open>import { x } from 'a'; function f() { var x; x = 1; }\<close>, and the same text with
  \<^verbatim>\<open>let\<close> (or \<^verbatim>\<open>const\<close>) for \<^verbatim>\<open>var\<close>: a local declaration shadows the import.
\<close>

definition local_source :: "string \<Rightarrow> parsed" where
  "local_source kind =
     \<lparr>p_source = ''import { x } from 'a'; function f() { '' @ kind @ '' x; x = 1; }'',
      p_tree = Node 0 53 False (Other ''Program''
        [import_x_node,
         Node 23 53 False (Function FunctionDeclaration []
           (Some (Node 32 33 False (Identifier ''f''))) []
           (Node 36 53 False (BlockStatement []
              [Node 38 44 False (VariableDeclaration kind
                 [Node 42 43 False (VariableDeclarator (Node 42 43 False (Identifier ''x'')) None)]),
               Node 45 51 False (Other ''ExpressionStatement''
                 [Node 45 50 False (AssignmentExpression ''=''
                    (Node 45 46 False (Identifier ''x''))
                    (Node 49 50 False (Other ''Literal'' [])))])])))]),
      p_imports = [import_x],
      p_exports = [],
      p_mapComments = [], p_refuses = accepts_all\<rparr>"


section \<open>Properties of path resolution\<close>

subsection \<open>Facts about the pieces\<close>



















subsection \<open>The resolver in closed form\<close>




section \<open>Imports shadowed by local declarations\<close>

text \<open>
  Claim C10. An assignment whose target matches the local alias of an imported binding
  raises no reassignment error when a declaration in an enclosing scope shadows the
  import. The program does this for \<^verbatim>\<open>var\<close>: the strict transpile of
  \<^verbatim>\<open>import { x } from 'a'; function f() { var x; x = 1; }\<close> succeeds. It departs from
  the claim for \<^verbatim>\<open>let\<close>: \<^verbatim>\<open>annotateAst\<close> records a \<^verbatim>\<open>let\<close> name in the block scope,
  which \<^verbatim>\<open>disallowIllegalReassignment\<close> never consults, so the same text with
  \<^verbatim>\<open>let x\<close> is refused with the reassignment error although \<^verbatim>\<open>x\<close> is the local
  variable.
\<close>

theorem let_shadow_divergence:
  "fst (transpileMethod cjs no_url (Inr (local_source ''let'')) strict_options fresh_global)
     = Inl (Error ''Cannot reassign imported binding `x`'')
   \<and> fst (transpileMethod cjs no_url (Inr (local_source ''var'')) strict_options fresh_global)
     = Inr \<lparr>r_code = '''use strict';\<newline>\<newline>var a = require('a');\<newline>\<newline>function f() { var x; x = 1; }'',
            r_map = False\<rparr>"
  by code_simp

section \<open>The identifier of a default export\<close>





section \<open>Determinism of the emitters\<close>

lemma with_body_snd: "\<exists>body. snd (with_body b r) = b\<lparr>b_body := body\<rparr>"
  unfolding with_body_def snd_conv by (rule exI, rule refl)

lemma if_body:
  "\<exists>body. snd x = b\<lparr>b_body := body\<rparr> \<Longrightarrow> \<exists>body. snd y = b\<lparr>b_body := body\<rparr>
   \<Longrightarrow> \<exists>body. snd (if c then x else y) = b\<lparr>b_body := body\<rparr>"
  by (cases c) simp_all

lemma keep_body: "\<exists>body. b = b\<lparr>b_body := body\<rparr>"
  by (rule exI [of _ "b_body b"]) simp

lemma defaultsMode_amd_body:
  "\<exists>body. snd (defaultsMode_amd toUrl b entry options) = b\<lparr>b_body := body\<rparr>"
  unfolding defaultsMode_amd_def Let_def by (rule with_body_snd)

lemma defaultsMode_cjs_body:
  "\<exists>body. snd (defaultsMode_cjs toUrl b entry options) = b\<lparr>b_body := body\<rparr>"
  unfolding defaultsMode_cjs_def Let_def by (rule with_body_snd)

lemma builders_strictMode_amd_body:
  "\<exists>body. snd (builders_strictMode_amd toUrl b entry options) = b\<lparr>b_body := body\<rparr>"
  unfolding builders_strictMode_amd_def Let_def by (rule with_body_snd)

lemma builders_strictMode_cjs_body:
  "\<exists>body. snd (builders_strictMode_cjs toUrl b entry options) = b\<lparr>b_body := body\<rparr>"
  unfolding builders_strictMode_cjs_def Let_def by (rule with_body_snd)

lemma defaultsMode_umd_body:
  "\<exists>body. snd (defaultsMode_umd toUrl b entry options) = b\<lparr>b_body := body\<rparr>"
proof (cases "requireName options")
  case None
  show ?thesis
    unfolding defaultsMode_umd_def Let_def None option.case
    by (rule if_body) (rule with_body_snd)+
next
  case (Some err)
  then show ?thesis
    unfolding defaultsMode_umd_def by (simp add: keep_body)
qed

lemma builders_strictMode_umd_body:
  "\<exists>body. snd (builders_strictMode_umd toUrl b entry options) = b\<lparr>b_body := body\<rparr>"
proof (cases "requireName options")
  case None
  show ?thesis
    unfolding builders_strictMode_umd_def Let_def None option.case
    by (rule if_body) (rule with_body_snd)+
next
  case (Some err)
  then show ?thesis
    unfolding builders_strictMode_umd_def by (simp add: keep_body)
qed

lemma bundleBuilders_body:
  "\<exists>body. snd (bundleBuilders strict fmt toUrl b entry options) = b\<lparr>b_body := body\<rparr>"
  unfolding bundleBuilders_def
  by (cases fmt; cases strict)
     (simp_all only: if_True if_False format.case defaultsMode_amd_body defaultsMode_cjs_body
        defaultsMode_umd_body builders_strictMode_amd_body builders_strictMode_cjs_body
        builders_strictMode_umd_body)

text \<open>
  Claim C9, amended. A single-file transpile builds its module and its buffer afresh
  from the source, so its output depends on the source and the options only: not on the
  process-wide warning flag, and a second run after the first returns the same result.
  The output of a bundle emission is determined by the bundle as it stands when the
  method is called, and by the options; the emission leaves the bundle as it was except
  for its body, which it rewrites in place.
\<close>

theorem emit_deterministic:
  "fst (transpileMethod fmt toUrl source options g) = fst (transpileMethod fmt toUrl source options g')
   \<and> fst (transpileMethod fmt toUrl source options
            (snd (transpileMethod fmt toUrl source options g)))
       = fst (transpileMethod fmt toUrl source options g)
   \<and> fst (bundle_transpile fmt toUrl b options g) = fst (bundle_transpile fmt toUrl b options g')
   \<and> fst (snd (bundle_transpile fmt toUrl b options g))
       = fst (snd (bundle_transpile fmt toUrl b options g'))
   \<and> (\<exists>body. fst (snd (bundle_transpile fmt toUrl b options g)) = b\<lparr>b_body := body\<rparr>)"
proof -
  have single: "fst (transpileMethod fmt toUrl source options g1)
                  = fst (transpileMethod fmt toUrl source options g2)" for g1 g2
    by (cases "getStandaloneModule source (opt_getModuleName options) (opt_strict options)")
       (simp_all add: transpileMethod_def Let_def)
  have res: "fst (bundle_transpile fmt toUrl b options g1)
               = fst (bundle_transpile fmt toUrl b options g2)" for g1 g2
    by (cases "entryModule b")
       (simp_all add: bundle_transpile_def Let_def split_beta)
  have bdl: "fst (snd (bundle_transpile fmt toUrl b options g1))
               = fst (snd (bundle_transpile fmt toUrl b options g2))" for g1 g2
    by (cases "entryModule b")
       (simp_all add: bundle_transpile_def Let_def split_beta)
  have same: "\<exists>body. b = b\<lparr>b_body := body\<rparr>"
    by (rule exI [of _ "b_body b"]) simp
  have body: "\<exists>body. fst (snd (bundle_transpile fmt toUrl b options g)) = b\<lparr>b_body := body\<rparr>"
  proof (cases "entryModule b")
    case None
    then show ?thesis
      using same by (auto simp: bundle_transpile_def Let_def)
  next
    case (Some entry)
    obtain body where
      "snd (bundleBuilders (opt_strict options) fmt toUrl b entry options) = b\<lparr>b_body := body\<rparr>"
      using bundleBuilders_body by blast
    with Some same show ?thesis
      by (auto simp: bundle_transpile_def Let_def split_beta)
  qed
  from single [of g g'] single [of "snd (transpileMethod fmt toUrl source options g)" g]
    res [of g g'] bdl [of g g'] body
  show ?thesis by blast
qed


text \<open>
  The claim as stated fails for two emissions over the same loaded bundle: the first
  call of \<^verbatim>\<open>toCjs\<close> on the bundle of \<^verbatim>\<open>var a = 1;\<close> returns the wrapped text and
  leaves it in \<^verbatim>\<open>bundle.body\<close>; the second call wraps that text again.
\<close>

theorem emit_twice_counterexample:
  "fst (bundle_transpile cjs no_url main_bundle no_options fresh_global)
     = Inr \<lparr>r_code = '''use strict';\<newline>\<newline>var a = 1;'', r_map = False\<rparr>
   \<and> fst (bundle_transpile cjs no_url
            (fst (snd (bundle_transpile cjs no_url main_bundle no_options fresh_global)))
            no_options
            (snd (snd (bundle_transpile cjs no_url main_bundle no_options fresh_global))))
     = Inr \<lparr>r_code = '''use strict';\<newline>\<newline>'use strict';\<newline>\<newline>var a = 1;'', r_map = False\<rparr>"
  by code_simp

end
